theory Spec2Isabelle
  imports Main "HOL-Library.AList"
begin

section \<open>Python string operations used by the collector\<close>

text \<open>
  Strings are \<open>char list\<close>. The collector uses \<^verbatim>\<open>str.replace\<close>, \<^verbatim>\<open>str.lower\<close>,
  \<^verbatim>\<open>str.strip\<close> and \<^verbatim>\<open>str.split(' ')[0]\<close>. A character is a code point below
  256; on these \<^verbatim>\<open>lower\<close> and \<^verbatim>\<open>strip\<close> are as in Python. Text with code points
  from 256 on is not covered.
\<close>

text \<open>
  \<^verbatim>\<open>s.replace(old, new)\<close>: every occurrence of \<open>old\<close>, found from left to right without
  overlap, is replaced; an empty \<open>old\<close> matches before every character and at the end.
\<close>

function replace_str :: "string \<Rightarrow> string \<Rightarrow> string \<Rightarrow> string" where
  "replace_str old new [] = (if old = [] then new else [])"
| "replace_str old new (c # s) =
     (if old = [] then new @ c # replace_str old new s
      else if take (length old) (c # s) = old
        then new @ replace_str old new (drop (length old) (c # s))
        else c # replace_str old new s)"
  by pat_completeness auto
termination
  by (relation "measure (\<lambda>(old, new, s). length s)") auto

text \<open>\<^verbatim>\<open>str.lower\<close>: the letters A to Z, and the capital letters 192 to 222 other than
  the multiplication sign 215, move up by 32.\<close>

definition lower_char :: "char \<Rightarrow> char" where
  "lower_char c =
     (let n = (of_char c :: nat)
      in if (65 \<le> n \<and> n \<le> 90) \<or> (192 \<le> n \<and> n \<le> 222 \<and> n \<noteq> 215)
         then char_of (n + 32) else c)"

definition lower :: "string \<Rightarrow> string" where
  "lower s = map lower_char s"

text \<open>The characters \<^verbatim>\<open>str.strip()\<close> removes: tab to carriage return, the four
  separators 28 to 31, the space, the next-line character 133 and the no-break space
  160.\<close>

definition is_space :: "char \<Rightarrow> bool" where
  "is_space c =
     (let n = (of_char c :: nat)
      in (9 \<le> n \<and> n \<le> 13) \<or> (28 \<le> n \<and> n \<le> 32) \<or> n = 133 \<or> n = 160)"

definition strip :: "string \<Rightarrow> string" where
  "strip s = rev (dropWhile is_space (rev (dropWhile is_space s)))"

text \<open>\<^verbatim>\<open>s.split(' ')[0]\<close>: the part of \<open>s\<close> before its first space (all of \<open>s\<close> when it
  has none); the list \<^verbatim>\<open>split\<close> returns is never empty.\<close>

definition split_first :: "string \<Rightarrow> string" where
  "split_first s = takeWhile (\<lambda>c. c \<noteq> CHR '' '') s"

section \<open>The salary page address\<close>

text \<open>
  \<^verbatim>\<open>HOOPSHYPE_PLAYER_URL.format(player_name.replace(' Jr.', '').lower().replace(' ', '-'))\<close>
\<close>

definition slug :: "string \<Rightarrow> string" where
  "slug player_name = replace_str '' '' ''-'' (lower (replace_str '' Jr.'' '''' player_name))"

definition HOOPSHYPE_PLAYER_URL :: "string \<Rightarrow> string" where
  "HOOPSHYPE_PLAYER_URL s = ''https://hoopshype.com/player/'' @ s @ ''/salary/''"

text \<open>The derivation in the specification's words: strip the suffix \<^verbatim>\<open>" Jr."\<close> if
  present, lowercase, replace spaces with hyphens.\<close>

definition strip_suffix :: "string \<Rightarrow> string \<Rightarrow> string" where
  "strip_suffix suf s =
     (if length suf \<le> length s \<and> drop (length s - length suf) s = suf
      then take (length s - length suf) s else s)"

definition slug_spec :: "string \<Rightarrow> string" where
  "slug_spec player_name =
     map (\<lambda>c. if c = CHR '' '' then CHR ''-'' else c) (lower (strip_suffix '' Jr.'' player_name))"

text \<open>\<^verbatim>\<open>old in s\<close>: \<open>old\<close> occurs in \<open>s\<close> as a run of consecutive characters.\<close>

fun contains :: "string \<Rightarrow> string \<Rightarrow> bool" where
  "contains old [] = (old = [])"
| "contains old (c # s) = (take (length old) (c # s) = old \<or> contains old s)"

section \<open>Tables\<close>

text \<open>
  A pandas \<^verbatim>\<open>DataFrame\<close> is its column labels, in order, and its rows; a row gives a
  cell for each column. \<open>NaN\<close> is the missing value. Column labels of one table are
  taken to be distinct, as those of every table of this pipeline are.
\<close>

datatype cell = NaN | IntCell int | StrCell string

type_synonym row = "(string \<times> cell) list"

record frame =
  columns :: "string list"
  rows :: "row list"

section \<open>Exceptions and observable effects\<close>

text \<open>
  Every Python exception the collector can meet is a value. \<open>Failure\<close> stands for
  whatever an external collaborator raises (the statistics client, the HTTP session),
  with its message.
\<close>

datatype error =
    KeyError string
  | AttributeError string
  | IndexError string
  | ValueError string
  | Failure string

text \<open>\<^verbatim>\<open>str(e)\<close>, as the f-strings of the \<^verbatim>\<open>except\<close> handlers print it: a
  \<^verbatim>\<open>KeyError\<close> prints the quoted key, the others their message.\<close>

fun str_of :: "error \<Rightarrow> string" where
  "str_of (KeyError k) = [CHR 0x27] @ k @ [CHR 0x27]"
| "str_of (AttributeError m) = m"
| "str_of (IndexError m) = m"
| "str_of (ValueError m) = m"
| "str_of (Failure m) = m"

text \<open>
  What a run does to the outside: lines printed, calls of \<^verbatim>\<open>time.sleep\<close>, sessions
  created by \<^verbatim>\<open>create_session_with_retries\<close>, the GET requests sent, each with
  the session that sent it, and tables written to a file. The state records them in
  order and counts the sessions.
\<close>

datatype event =
    Print string
  | Sleep nat
  | NewSession nat
  | Get nat string
  | ToCsv string frame

record world =
  trace :: "event list"
  sessions :: nat

definition emit :: "event \<Rightarrow> world \<Rightarrow> world" where
  "emit e w = w\<lparr>trace := trace w @ [e]\<rparr>"

definition print_line :: "string \<Rightarrow> world \<Rightarrow> world" where
  "print_line msg w = emit (Print msg) w"

definition sleep :: "nat \<Rightarrow> world \<Rightarrow> world" where
  "sleep secs w = emit (Sleep secs) w"

text \<open>The events of the transport: a session created, a request sent.\<close>

fun is_transport :: "event \<Rightarrow> bool" where
  "is_transport (NewSession k) = True"
| "is_transport (Get k url) = True"
| "is_transport e = False"

section \<open>Table operations\<close>

definition cell_of :: "row \<Rightarrow> string \<Rightarrow> cell" where
  "cell_of r c = (case map_of r c of None \<Rightarrow> NaN | Some v \<Rightarrow> v)"

text \<open>\<^verbatim>\<open>pd.DataFrame()\<close>: no columns and no rows.\<close>

definition DataFrame :: frame where
  "DataFrame = \<lparr>columns = [], rows = []\<rparr>"

text \<open>\<^verbatim>\<open>df.empty\<close>: true when either axis has length 0.\<close>

definition frame_empty :: "frame \<Rightarrow> bool" where
  "frame_empty df = (columns df = [] \<or> rows df = [])"

definition union_cols :: "string list \<Rightarrow> string list \<Rightarrow> string list" where
  "union_cols a b = a @ filter (\<lambda>c. c \<notin> set a) b"

definition align :: "string list \<Rightarrow> row \<Rightarrow> row" where
  "align cols r = map (\<lambda>c. (c, cell_of r c)) cols"

text \<open>\<^verbatim>\<open>pd.DataFrame(records)\<close> for a list of dictionaries: the columns are the keys in
  the order they first appear; a key a record lacks is \<open>NaN\<close> there. The empty list
  gives the table with no columns.\<close>

definition DataFrame_records :: "row list \<Rightarrow> frame" where
  "DataFrame_records recs =
     (let cols = foldl union_cols [] (map (map fst) recs)
      in \<lparr>columns = cols, rows = map (align cols) recs\<rparr>)"

text \<open>\<^verbatim>\<open>df[name] = value\<close> with a scalar: the column is overwritten in every row, or added
  as the last column.\<close>

definition set_column :: "frame \<Rightarrow> string \<Rightarrow> cell \<Rightarrow> frame" where
  "set_column df name v =
     \<lparr>columns = (if name \<in> set (columns df) then columns df else columns df @ [name]),
      rows = map (AList.update name v) (rows df)\<rparr>"

text \<open>\<^verbatim>\<open>pd.concat(frames, ignore_index=True)\<close>: the union of the columns in order of
  first appearance, the rows one table after the other, \<open>NaN\<close> where a table lacks a
  column. An empty list raises \<^verbatim>\<open>ValueError\<close>.\<close>

definition pd_concat :: "frame list \<Rightarrow> error + frame" where
  "pd_concat dfs =
     (if dfs = [] then Inl (ValueError ''No objects to concatenate'')
      else (let cols = foldl union_cols [] (map columns dfs)
            in Inr \<lparr>columns = cols,
                    rows = concat (map (\<lambda>df. map (align cols) (rows df)) dfs)\<rparr>))"

text \<open>
  \<^verbatim>\<open>left.merge(right, left_on=lk, right_on=rk, how='left')\<close>, and
  \<^verbatim>\<open>left.merge(right, on=k, how='left')\<close> as the case \<open>lk = rk = k\<close>.
  A key that is not a column of its table raises \<^verbatim>\<open>KeyError\<close> (the right table is
  looked at first). When both keys have the same label the result keeps one key column.
  Every other label the two tables share gets the suffix \<^verbatim>\<open>_x\<close> on the left and
  \<^verbatim>\<open>_y\<close> on the right. Each left row, in order, is paired with every right row
  whose key cell equals its own (missing keys match each other), or with missing values
  when no right row matches.
  Key columns of different kinds: when both tables have rows, one key column holds no
  string and the other holds strings and no integer, pandas raises \<^verbatim>\<open>ValueError\<close>
  (\<open>key_clash\<close>). Integer keys are compared exactly; pandas compares them as 64-bit
  floats once a key column holds a missing value, which is the same for integers below
  \<open>2 ^ 53\<close> in absolute value, as player ids are.
\<close>

definition has_str :: "string \<Rightarrow> row list \<Rightarrow> bool" where
  "has_str c rs =
     list_ex (\<lambda>r. case cell_of r c of NaN \<Rightarrow> False | IntCell i \<Rightarrow> False | StrCell s \<Rightarrow> True) rs"

definition has_int :: "string \<Rightarrow> row list \<Rightarrow> bool" where
  "has_int c rs =
     list_ex (\<lambda>r. case cell_of r c of NaN \<Rightarrow> False | IntCell i \<Rightarrow> True | StrCell s \<Rightarrow> False) rs"

definition key_clash :: "row list \<Rightarrow> string \<Rightarrow> row list \<Rightarrow> string \<Rightarrow> bool" where
  "key_clash ls lk rs rk =
     (if ls = [] \<or> rs = [] then False
      else if has_str lk ls then \<not> has_int lk ls \<and> \<not> has_str rk rs
      else has_str rk rs \<and> \<not> has_int rk rs)"

definition merge_left :: "frame \<Rightarrow> frame \<Rightarrow> string \<Rightarrow> string \<Rightarrow> error + frame" where
  "merge_left left right lk rk =
     (if rk \<notin> set (columns right) then Inl (KeyError rk)
      else if lk \<notin> set (columns left) then Inl (KeyError lk)
      else if key_clash (rows left) lk (rows right) rk
        then Inl (ValueError ''You are trying to merge on columns of different kinds'')
      else
        (let rcols = filter (\<lambda>c. \<not> (lk = rk \<and> c = rk)) (columns right);
             lname = (\<lambda>c. if c \<in> set rcols then c @ ''_x'' else c);
             rname = (\<lambda>c. if c \<in> set (columns left) then c @ ''_y'' else c);
             lpart = (\<lambda>l. map (\<lambda>c. (lname c, cell_of l c)) (columns left));
             joined = (\<lambda>l.
               (let ms = filter (\<lambda>r. cell_of r rk = cell_of l lk) (rows right)
                in if ms = [] then [lpart l @ map (\<lambda>c. (rname c, NaN)) rcols]
                   else map (\<lambda>r. lpart l @ map (\<lambda>c. (rname c, cell_of r c)) rcols) ms))
         in Inr \<lparr>columns = map lname (columns left) @ map rname rcols,
                 rows = concat (map joined (rows left))\<rparr>))"

section \<open>Parsed HTML\<close>

text \<open>
  The document BeautifulSoup builds: a tag has a name, its classes and its contents; a
  text node is a \<open>NavigableString\<close>. A document is the list of its top-level nodes.
\<close>

datatype node = NavigableString string | Tag string "string list" "node list"

text \<open>The tags of a subtree in document order, the root first.\<close>

fun tags :: "node \<Rightarrow> node list" where
  "tags (NavigableString s) = []"
| "tags (Tag n cs ks) = Tag n cs ks # concat (map tags ks)"

definition soup_tags :: "node list \<Rightarrow> node list" where
  "soup_tags soup = concat (map tags soup)"

definition descendants :: "node \<Rightarrow> node list" where
  "descendants t = (case t of NavigableString s \<Rightarrow> [] | Tag n cs ks \<Rightarrow> concat (map tags ks))"

text \<open>\<^verbatim>\<open>tag.text\<close>: all the strings below the tag, joined.\<close>

fun get_text :: "node \<Rightarrow> string" where
  "get_text (NavigableString s) = s"
| "get_text (Tag n cs ks) = concat (map get_text ks)"

text \<open>\<^verbatim>\<open>tag.string\<close>: the string of a tag with exactly one child, through single tags;
  \<^verbatim>\<open>None\<close> otherwise.\<close>

fun string_of :: "node \<Rightarrow> string option" where
  "string_of (NavigableString s) = Some s"
| "string_of (Tag n cs [k]) = string_of k"
| "string_of (Tag n cs ks) = None"

definition is_tag :: "string \<Rightarrow> node \<Rightarrow> bool" where
  "is_tag name t = (case t of NavigableString s \<Rightarrow> False | Tag n cs ks \<Rightarrow> n = name)"

definition has_class :: "string \<Rightarrow> node \<Rightarrow> bool" where
  "has_class c t = (case t of NavigableString s \<Rightarrow> False | Tag n cs ks \<Rightarrow> c \<in> set cs)"

section \<open>The collector\<close>

text \<open>
  A roster entry has the two fields the pipeline reads, \<^verbatim>\<open>id\<close> and
  \<^verbatim>\<open>full_name\<close>, the identity record of the specification; the other columns of
  the roster table play no part. \<open>players_df\<close> is a roster as the table the merge
  receives, \<^verbatim>\<open>pd.DataFrame(active_players)\<close>.
\<close>

record player =
  id' :: int
  full_name :: string

definition players_df :: "player list \<Rightarrow> frame" where
  "players_df players =
     DataFrame_records
       (map (\<lambda>p. [(''id'', IntCell (id' p)), (''full_name'', StrCell (full_name p))]) players)"

subsection \<open>Transport\<close>

text \<open>
  \<^verbatim>\<open>create_session_with_retries\<close> builds a new \<^verbatim>\<open>requests.Session\<close> at every
  call; the session is the next unused number. The retry policy it mounts acts inside
  \<^verbatim>\<open>session.get\<close>, which is part of the page source below.
\<close>

definition create_session_with_retries :: "world \<Rightarrow> nat \<times> world" where
  "create_session_with_retries w =
     (sessions w, emit (NewSession (sessions w)) (w\<lparr>sessions := Suc (sessions w)\<rparr>))"

subsection \<open>Statistics and awards\<close>

text \<open>
  The statistics client is a parameter: \<open>career\<close> is
  \<^verbatim>\<open>PlayerCareerStats(player_id=...).get_data_frames()\<close> and \<open>info\<close> is
  \<^verbatim>\<open>CommonPlayerInfo(player_id=...).player_headline_stats.get_data_frame()\<close>, each
  returning its value or raising.
\<close>

definition fetch_player_stats :: "(int \<Rightarrow> error + frame list) \<Rightarrow> int \<Rightarrow> error + frame" where
  "fetch_player_stats career player_id =
     (case career player_id of
        Inl e \<Rightarrow> Inl e
      | Inr dfs \<Rightarrow>
          (case dfs of
             [] \<Rightarrow> Inl (IndexError ''list index out of range'')
           | df # _ \<Rightarrow> Inr df))"

text \<open>
  The loop of \<^verbatim>\<open>fetch_all_player_stats\<close> over the roster, with its accumulator:
  \<^verbatim>\<open>
  for _, player in players_df.iterrows():
      try:
          stats = fetch_player_stats(player['id'])
          if not stats.empty:
              stats['player_id'] = player['id']
              all_stats.append(stats)
          time.sleep(1)
      except Exception as e:
          print(f"Failed to fetch stats for player {player['full_name']}: {e}")
  \<close>
  The \<open>Inr\<close> branch is the \<^verbatim>\<open>try\<close> block run to its end, the \<open>Inl\<close> branch
  the handler. The awards loop and the salary loop have the same shape.
\<close>

fun stats_loop ::
  "(int \<Rightarrow> error + frame list) \<Rightarrow> player list \<Rightarrow> frame list \<Rightarrow> world \<Rightarrow> frame list \<times> world"
where
  "stats_loop career [] all_stats w = (all_stats, w)"
| "stats_loop career (player # rest) all_stats w =
     (case fetch_player_stats career (id' player) of
        Inr stats \<Rightarrow>
          stats_loop career rest
            (if \<not> frame_empty stats
             then all_stats @ [set_column stats ''player_id'' (IntCell (id' player))]
             else all_stats)
            (sleep 1 w)
      | Inl e \<Rightarrow>
          stats_loop career rest all_stats
            (print_line
               (''Failed to fetch stats for player '' @ full_name player @ '': '' @ str_of e) w))"

text \<open>\<^verbatim>\<open>pd.concat(all_stats, ignore_index=True) if all_stats else pd.DataFrame()\<close>\<close>

definition fetch_all_player_stats ::
  "(int \<Rightarrow> error + frame list) \<Rightarrow> player list \<Rightarrow> world \<Rightarrow> (error + frame) \<times> world"
where
  "fetch_all_player_stats career players w =
     (case stats_loop career players [] w of
        (all_stats, w') \<Rightarrow>
          (if all_stats \<noteq> [] then pd_concat all_stats else Inr DataFrame, w'))"

definition fetch_player_awards :: "(int \<Rightarrow> error + frame) \<Rightarrow> int \<Rightarrow> error + frame" where
  "fetch_player_awards info player_id = info player_id"

fun awards_loop ::
  "(int \<Rightarrow> error + frame) \<Rightarrow> player list \<Rightarrow> frame list \<Rightarrow> world \<Rightarrow> frame list \<times> world"
where
  "awards_loop info [] all_awards w = (all_awards, w)"
| "awards_loop info (player # rest) all_awards w =
     (case fetch_player_awards info (id' player) of
        Inr awards \<Rightarrow>
          awards_loop info rest
            (if \<not> frame_empty awards
             then all_awards @ [set_column awards ''player_id'' (IntCell (id' player))]
             else all_awards)
            (sleep 1 w)
      | Inl e \<Rightarrow>
          awards_loop info rest all_awards
            (print_line
               (''Failed to fetch awards for player '' @ full_name player @ '': '' @ str_of e) w))"

definition fetch_all_player_awards ::
  "(int \<Rightarrow> error + frame) \<Rightarrow> player list \<Rightarrow> world \<Rightarrow> (error + frame) \<times> world"
where
  "fetch_all_player_awards info players w =
     (case awards_loop info players [] w of
        (all_awards, w') \<Rightarrow>
          (if all_awards \<noteq> [] then pd_concat all_awards else Inr DataFrame, w'))"

subsection \<open>Salaries\<close>

text \<open>The error of using an attribute of \<^verbatim>\<open>None\<close>.\<close>

definition none_has_no :: "string \<Rightarrow> error" where
  "none_has_no attr =
     AttributeError ([CHR 0x27] @ ''NoneType'' @ [CHR 0x27] @ '' object has no attribute ''
                     @ [CHR 0x27] @ attr @ [CHR 0x27])"

text \<open>
  One body row of the salary table: the season is the stripped text of the first
  \<^verbatim>\<open>td\<close> of class \<^verbatim>\<open>table-key\<close>; the salary is the stripped text of the third
  \<^verbatim>\<open>td\<close>, cut at its first space, without \<^verbatim>\<open>$\<close> and \<^verbatim>\<open>,\<close>.
\<close>

definition parse_row :: "node \<Rightarrow> error + row" where
  "parse_row r =
     (case find (\<lambda>t. is_tag ''td'' t \<and> has_class ''table-key'' t) (descendants r) of
        None \<Rightarrow> Inl (none_has_no ''text'')
      | Some key \<Rightarrow>
          (let year = strip (get_text key);
               tds = filter (is_tag ''td'') (descendants r)
           in if length tds \<le> 2 then Inl (IndexError ''list index out of range'')
              else
                (let salary =
                   replace_str '','' '''' (replace_str ''$'' ''''
                     (split_first (strip (get_text (tds ! 2)))))
                 in Inr [(''season'', StrCell year), (''salary'', StrCell salary)])))"

fun parse_rows :: "node list \<Rightarrow> error + row list" where
  "parse_rows [] = Inr []"
| "parse_rows (r # rest) =
     (case parse_row r of
        Inl e \<Rightarrow> Inl e
      | Inr rec \<Rightarrow> (case parse_rows rest of Inl e \<Rightarrow> Inl e | Inr recs \<Rightarrow> Inr (rec # recs)))"

definition is_past_label :: "node \<Rightarrow> bool" where
  "is_past_label t = (is_tag ''span'' t \<and> string_of t = Some ''Past Salaries'')"

definition player_url :: "string \<Rightarrow> string" where
  "player_url player_name = HOOPSHYPE_PLAYER_URL (slug player_name)"

text \<open>
  \<^verbatim>\<open>
  session = create_session_with_retries()
  url = HOOPSHYPE_PLAYER_URL.format(...)
  response = session.get(url)
  soup = BeautifulSoup(response.text, 'html.parser')
  all_salaries = []
  past_table = soup.find('span', string='Past Salaries').find_next('table')
  if past_table:
      for row in past_table.tbody.find_all('tr'):
          ...
  else:
      print(f"Past salaries table not found for player {player_name}")
  return pd.DataFrame(all_salaries)
  \<close>
  \<open>http\<close> is the site as \<^verbatim>\<open>session.get\<close> and the HTML parser show it: the parsed
  page at an address, or the exception the request raises.
  \<^verbatim>\<open>soup.find('span', string='Past Salaries')\<close> is the first such tag in document
  order, \<^verbatim>\<open>find_next('table')\<close> the first table after it; calling \<^verbatim>\<open>find_next\<close>
  or \<^verbatim>\<open>find_all\<close> on \<^verbatim>\<open>None\<close> raises \<^verbatim>\<open>AttributeError\<close>.
\<close>

definition fetch_player_salaries ::
  "(string \<Rightarrow> error + node list) \<Rightarrow> string \<Rightarrow> world \<Rightarrow> (error + frame) \<times> world"
where
  "fetch_player_salaries http player_name w =
     (case create_session_with_retries w of
        (session, w1) \<Rightarrow>
          (let url = player_url player_name;
               w2 = emit (Get session url) w1
           in case http url of
                Inl e \<Rightarrow> (Inl e, w2)
              | Inr soup \<Rightarrow>
                  (case dropWhile (\<lambda>t. \<not> is_past_label t) (soup_tags soup) of
                     [] \<Rightarrow> (Inl (none_has_no ''find_next''), w2)
                   | label # after \<Rightarrow>
                       (case find (is_tag ''table'') after of
                          None \<Rightarrow>
                            (Inr (DataFrame_records []),
                             print_line
                               (''Past salaries table not found for player '' @ player_name) w2)
                        | Some past_table \<Rightarrow>
                            (case find (is_tag ''tbody'') (descendants past_table) of
                               None \<Rightarrow> (Inl (none_has_no ''find_all''), w2)
                             | Some tbody \<Rightarrow>
                                 (case parse_rows (filter (is_tag ''tr'') (descendants tbody)) of
                                    Inl e \<Rightarrow> (Inl e, w2)
                                  | Inr all_salaries \<Rightarrow>
                                      (Inr (DataFrame_records all_salaries), w2)))))))"

fun salaries_loop ::
  "(string \<Rightarrow> error + node list) \<Rightarrow> player list \<Rightarrow> frame list \<Rightarrow> world \<Rightarrow> frame list \<times> world"
where
  "salaries_loop http [] all_salaries w = (all_salaries, w)"
| "salaries_loop http (player # rest) all_salaries w =
     (case fetch_player_salaries http (full_name player) w of
        (Inr salaries, w1) \<Rightarrow>
          salaries_loop http rest
            (if \<not> frame_empty salaries
             then all_salaries @ [set_column salaries ''full_name'' (StrCell (full_name player))]
             else all_salaries)
            (sleep 1 w1)
      | (Inl e, w1) \<Rightarrow>
          salaries_loop http rest all_salaries
            (print_line
               (''Failed to fetch salaries for player '' @ full_name player @ '': '' @ str_of e)
               w1))"

definition fetch_all_player_salaries ::
  "(string \<Rightarrow> error + node list) \<Rightarrow> player list \<Rightarrow> world \<Rightarrow> (error + frame) \<times> world"
where
  "fetch_all_player_salaries http players w =
     (case salaries_loop http players [] w of
        (all_salaries, w') \<Rightarrow>
          (if all_salaries \<noteq> [] then pd_concat all_salaries else Inr DataFrame, w'))"

subsection \<open>Merge\<close>

text \<open>
  \<^verbatim>\<open>
  merged_df = players_df.merge(stats_df, left_on='id', right_on='player_id', how='left')
  merged_df = merged_df.merge(awards_df, on='player_id', how='left')
  merged_df = merged_df.merge(salaries_df, left_on='full_name', right_on='full_name', how='left')
  \<close>
  An exception of one merge ends the function.
\<close>

definition merge_data :: "frame \<Rightarrow> frame \<Rightarrow> frame \<Rightarrow> frame \<Rightarrow> error + frame" where
  "merge_data players_tbl stats_df awards_df salaries_df =
     (case merge_left players_tbl stats_df ''id'' ''player_id'' of
        Inl e \<Rightarrow> Inl e
      | Inr merged1 \<Rightarrow>
          (case merge_left merged1 awards_df ''player_id'' ''player_id'' of
             Inl e \<Rightarrow> Inl e
           | Inr merged2 \<Rightarrow> merge_left merged2 salaries_df ''full_name'' ''full_name''))"

subsection \<open>The run\<close>

text \<open>
  \<open>active\<close> is \<^verbatim>\<open>players.get_active_players()\<close>, the roster or the exception it
  raises. \<^verbatim>\<open>save_data\<close> is \<^verbatim>\<open>df.to_csv(filename, index=False)\<close>, recorded as the
  table and the file it goes to.
\<close>

definition fetch_active_players :: "(error + player list) \<Rightarrow> error + player list" where
  "fetch_active_players active = active"

definition save_data :: "frame \<Rightarrow> string \<Rightarrow> world \<Rightarrow> world" where
  "save_data df filename w = emit (ToCsv filename df) w"

text \<open>
  \<^verbatim>\<open>main()\<close>: the roster, the three tables, the merge, the file, with a line printed
  before each step. An exception of a step ends the run: nothing catches it.
\<close>

definition main ::
  "(error + player list) \<Rightarrow> (int \<Rightarrow> error + frame list) \<Rightarrow> (int \<Rightarrow> error + frame)
     \<Rightarrow> (string \<Rightarrow> error + node list) \<Rightarrow> world \<Rightarrow> (error + unit) \<times> world"
where
  "main active career info http w =
     (let w1 = print_line ''Fetching active players...'' w
      in case fetch_active_players active of
           Inl e \<Rightarrow> (Inl e, w1)
         | Inr players \<Rightarrow>
     (case fetch_all_player_stats career players
             (print_line ''Fetching player stats...'' w1) of
        (Inl e, w2) \<Rightarrow> (Inl e, w2)
      | (Inr stats_df, w2) \<Rightarrow>
     (case fetch_all_player_awards info players
             (print_line ''Fetching player awards...'' w2) of
        (Inl e, w3) \<Rightarrow> (Inl e, w3)
      | (Inr awards_df, w3) \<Rightarrow>
     (case fetch_all_player_salaries http players
             (print_line ''Scraping player salaries...'' w3) of
        (Inl e, w4) \<Rightarrow> (Inl e, w4)
      | (Inr salaries_df, w4) \<Rightarrow>
     (let w5 = print_line ''Merging data...'' w4
      in case merge_data (players_df players) stats_df awards_df salaries_df of
           Inl e \<Rightarrow> (Inl e, w5)
         | Inr merged_df \<Rightarrow>
             (Inr (),
              print_line ''Data collection complete.''
                (save_data merged_df ''nba_active_players_dataset.csv''
                   (print_line ''Saving data to CSV...'' w5))))))))"

section \<open>Tagged tables\<close>

text \<open>A table is tagged with \<open>key\<close> from \<open>vals\<close> when it has the column \<open>key\<close> and every
  row holds one of \<open>vals\<close> there.\<close>

definition tagged :: "string \<Rightarrow> cell set \<Rightarrow> frame \<Rightarrow> bool" where
  "tagged key vals df =
     (key \<in> set (columns df) \<and> (\<forall>r \<in> set (rows df). cell_of r key \<in> vals))"

section \<open>Concrete inputs\<close>

text \<open>The inputs at which the theorems below evaluate the collector.\<close>

definition w0 :: world where
  "w0 = \<lparr>trace = [], sessions = 0\<rparr>"

definition A_B :: player where
  "A_B = \<lparr>id' = 1, full_name = ''A B''\<rparr>"

definition C_D :: player where
  "C_D = \<lparr>id' = 2, full_name = ''C D''\<rparr>"

text \<open>A salary page with the label, the table and one body row.\<close>

definition past_salaries_row :: node where
  "past_salaries_row =
     Tag ''tr'' []
       [Tag ''td'' [''table-key''] [NavigableString ''2021-22''],
        Tag ''td'' [] [],
        Tag ''td'' [] [NavigableString ''$1,234,567 (total)'']]"

definition past_salaries_page :: "node list" where
  "past_salaries_page =
     [Tag ''span'' [] [NavigableString ''Past Salaries''],
      Tag ''table'' [] [Tag ''tbody'' [] [past_salaries_row]]]"

text \<open>A body row of four cells with the key cell in second place, markup inside the
  key cell and white space around the texts.\<close>

definition messy_key :: node where
  "messy_key =
     Tag ''td'' [''name'', ''table-key'']
       [NavigableString [CHR 0x0A, CHR '' ''],
        Tag ''b'' [] [NavigableString ''2021-22''],
        NavigableString [CHR 0xA0]]"

definition messy_row :: node where
  "messy_row =
     Tag ''tr'' [''odd'']
       [NavigableString '' '',
        Tag ''td'' [''rank''] [NavigableString ''7''],
        messy_key,
        Tag ''td'' [] [NavigableString (''  $1,234,567 (total)'' @ [CHR 0x0A])],
        Tag ''td'' [] [NavigableString ''$9,999'']]"
text \<open>A page with the label and no table after it, and a page with neither.\<close>

definition label_only_page :: "node list" where
  "label_only_page = [Tag ''span'' [] [NavigableString ''Past Salaries'']]"

definition not_found_page :: "node list" where
  "not_found_page = [Tag ''h1'' [] [NavigableString ''Page not found'']]"

text \<open>A statistics client with one season row for player 1 and none for anyone else, an
  awards client with no row for anyone, and a site with salaries for \<^verbatim>\<open>C D\<close> only.\<close>

definition scenario_career :: "int \<Rightarrow> error + frame list" where
  "scenario_career i =
     (if i = 1 then Inr [\<lparr>columns = [''PTS''], rows = [[(''PTS'', IntCell 30)]]\<rparr>]
      else Inr [\<lparr>columns = [''PTS''], rows = []\<rparr>])"

definition scenario_info :: "int \<Rightarrow> error + frame" where
  "scenario_info i = Inr \<lparr>columns = [''PIE''], rows = []\<rparr>"

definition scenario_site :: "string \<Rightarrow> error + node list" where
  "scenario_site url =
     (if url = player_url ''C D'' then Inr past_salaries_page else Inr label_only_page)"

text \<open>Clients that raise for player 2, or for \<^verbatim>\<open>C D\<close>, and answer with one row for
  every other player.\<close>

definition flaky_career :: "int \<Rightarrow> error + frame list" where
  "flaky_career i =
     (if i = 2 then Inl (Failure ''timed out'')
      else Inr [\<lparr>columns = [''PTS''], rows = [[(''PTS'', IntCell 30)]]\<rparr>])"

definition flaky_info :: "int \<Rightarrow> error + frame" where
  "flaky_info i =
     (if i = 2 then Inl (Failure ''timed out'')
      else Inr \<lparr>columns = [''PIE''], rows = [[(''PIE'', IntCell 12)]]\<rparr>)"

definition flaky_site :: "string \<Rightarrow> error + node list" where
  "flaky_site url =
     (if url = player_url ''C D'' then Inl (Failure ''timed out'') else Inr past_salaries_page)"

section \<open>Strings: the slug\<close>

lemma replace_str_char: "replace_str [c] [d] s = map (\<lambda>x. if x = c then d else x) s"
  by (induction s) auto

lemma replace_str_absent: "\<not> contains old s \<Longrightarrow> replace_str old new s = s"
  by (induction s) auto

lemma replace_str_self: "old \<noteq> [] \<Longrightarrow> replace_str old new old = new"
  by (cases old) auto

text \<open>An occurrence of \<open>old\<close> cannot begin inside \<open>s\<close> and end inside an appended copy of
  \<open>old\<close> when the first character of \<open>old\<close> does not occur again in \<open>old\<close>.\<close>

lemma no_straddle:
  assumes "take (length old) (c # s) \<noteq> old" and "old = a # rest" and "a \<notin> set rest"
  shows "take (length old) ((c # s) @ old) \<noteq> old"
proof
  assume h: "take (length old) ((c # s) @ old) = old"
  show False
  proof (cases "length old \<le> length (c # s)")
    case True
    then have z: "length old - length (c # s) = 0" by simp
    have "take (length old) ((c # s) @ old)
          = take (length old) (c # s) @ take (length old - length (c # s)) old"
      by (rule take_append)
    then have "take (length old) ((c # s) @ old) = take (length old) (c # s)"
      by (simp only: z take_0 append_Nil2)
    with h assms(1) show False by simp
  next
    case False
    define k where "k = length s"
    have k: "Suc k < length old" using False by (simp add: k_def)
    have "old ! Suc k = (take (length old) ((c # s) @ old)) ! Suc k" using h by simp
    also have "\<dots> = ((c # s) @ old) ! Suc k" using k by simp
    also have "\<dots> = old ! 0" by (simp add: nth_append k_def)
    also have "\<dots> = a" using assms(2) by simp
    finally have "old ! Suc k = a" .
    then have "rest ! k = a" using assms(2) by simp
    moreover have "k < length rest" using k assms(2) by simp
    ultimately have "a \<in> set rest" using nth_mem by blast
    with assms(3) show False by simp
  qed
qed

lemma replace_str_suffix:
  assumes "old = a # rest" and "a \<notin> set rest"
  shows "\<not> contains old s \<Longrightarrow> replace_str old [] (s @ old) = s"
proof (induction s)
  case Nil
  show ?case using assms(1) replace_str_self[of old "[]"] by simp
next
  case (Cons c s)
  from Cons.prems have a: "take (length old) (c # s) \<noteq> old" and b: "\<not> contains old s"
    by auto
  have "take (length old) ((c # s) @ old) \<noteq> old"
    using a assms by (rule no_straddle)
  then have "take (length old) (c # (s @ old)) \<noteq> old" by simp
  then have "replace_str old [] (c # (s @ old)) = c # replace_str old [] (s @ old)"
    using assms(1) by (simp del: take_Suc_Cons take_Cons_numeral)
  then show ?case using Cons.IH[OF b] by simp
qed

lemma contains_drop: "contains old (drop i s) \<Longrightarrow> contains old s"
  by (induction s arbitrary: i) (auto simp: drop_Cons' split: if_splits)

lemma contains_self: "old \<noteq> [] \<Longrightarrow> contains old old"
  by (cases old) auto

lemma strip_suffix_absent:
  assumes "\<not> contains suf s" and "suf \<noteq> []"
  shows "strip_suffix suf s = s"
proof -
  have "drop (length s - length suf) s \<noteq> suf"
  proof
    assume h: "drop (length s - length suf) s = suf"
    have "contains suf suf" using assms(2) by (rule contains_self)
    with h have "contains suf (drop (length s - length suf) s)" by simp
    then have "contains suf s" by (rule contains_drop)
    with assms show False by simp
  qed
  then show ?thesis by (simp add: strip_suffix_def)
qed

lemma strip_suffix_append: "strip_suffix suf (s @ suf) = s"
  by (simp add: strip_suffix_def)

lemma slug_map:
  "slug name = map (\<lambda>c. if c = CHR '' '' then CHR ''-'' else c)
                   (lower (replace_str '' Jr.'' '''' name))"
  by (simp add: slug_def replace_str_char)

lemma slug_no_Jr: "\<not> contains '' Jr.'' base \<Longrightarrow> slug base = slug_spec base"
  by (simp add: slug_map slug_spec_def replace_str_absent strip_suffix_absent)

lemma slug_suffix_Jr:
  assumes "\<not> contains '' Jr.'' base"
  shows "slug (base @ '' Jr.'') = slug_spec (base @ '' Jr.'')"
proof -
  have "CHR '' '' \<notin> set ''Jr.''" by simp
  with assms have "replace_str '' Jr.'' [] (base @ '' Jr.'') = base"
    using replace_str_suffix[of "'' Jr.''" "CHR '' ''" "''Jr.''" base] by simp
  moreover have "strip_suffix '' Jr.'' (base @ '' Jr.'') = base"
    by (rule strip_suffix_append)
  ultimately show ?thesis by (simp only: slug_map slug_spec_def)
qed

text \<open>
  C7, as the collector implements it. The slug is the name with every occurrence of
  \<^verbatim>\<open>" Jr."\<close> removed, wherever it stands, then lowercased, then with each space
  replaced by a hyphen. For a name in which \<^verbatim>\<open>" Jr."\<close> does not occur, and for such
  a name followed by the suffix \<^verbatim>\<open>" Jr."\<close>, this is the derivation that strips the
  suffix only. \<^verbatim>\<open>"James Harden"\<close> gives \<^verbatim>\<open>"james-harden"\<close> and
  \<^verbatim>\<open>"Wendell Carter Jr."\<close> gives \<^verbatim>\<open>"wendell-carter"\<close>.
\<close>

theorem slug_removes_every_Jr:
  "slug name = map (\<lambda>c. if c = CHR '' '' then CHR ''-'' else c)
                   (lower (replace_str '' Jr.'' '''' name))
   \<and> (\<not> contains '' Jr.'' base \<longrightarrow>
        slug base = slug_spec base \<and> slug (base @ '' Jr.'') = slug_spec (base @ '' Jr.''))
   \<and> slug ''James Harden'' = ''james-harden''
   \<and> slug ''Wendell Carter Jr.'' = ''wendell-carter''"
proof -
  have "slug ''James Harden'' = ''james-harden''" by code_simp
  moreover have "slug ''Wendell Carter Jr.'' = ''wendell-carter''" by code_simp
  ultimately show ?thesis using slug_map slug_no_Jr slug_suffix_Jr by blast
qed

theorem slug_removes_every_Jr_witness:
  "\<not> contains '' Jr.'' ''Wendell Carter''
   \<and> slug ''Wendell Carter'' = slug_spec ''Wendell Carter''
   \<and> slug (''Wendell Carter'' @ '' Jr.'') = slug_spec (''Wendell Carter'' @ '' Jr.'')"
proof -
  have h: "\<not> contains '' Jr.'' ''Wendell Carter''" by code_simp
  from slug_removes_every_Jr[of "''Wendell Carter''" "''Wendell Carter''"] h
  show ?thesis by blast
qed

text \<open>
  C7, as the specification states it, fails for a name with \<^verbatim>\<open>" Jr."\<close> before its
  end: the collector removes it there too, the suffix rule leaves it.
\<close>

theorem slug_suffix_only_counterexample:
  "slug ''Tim Jr. Hardaway'' = ''tim-hardaway''
   \<and> slug_spec ''Tim Jr. Hardaway'' = ''tim-jr.-hardaway''
   \<and> slug ''Tim Jr. Hardaway'' \<noteq> slug_spec ''Tim Jr. Hardaway''"
  by code_simp

section \<open>Salary pages\<close>

lemma parse_row_example:
  "parse_row past_salaries_row
     = Inr [(''season'', StrCell ''2021-22''), (''salary'', StrCell ''1234567'')]"
  by code_simp

lemma DataFrame_records_example:
  "DataFrame_records [[(''season'', StrCell ''2021-22''), (''salary'', StrCell ''1234567'')]]
   = \<lparr>columns = [''season'', ''salary''],
      rows = [[(''season'', StrCell ''2021-22''), (''salary'', StrCell ''1234567'')]]\<rparr>"
  by code_simp

lemma past_salaries_page_label:
  "dropWhile (\<lambda>t. \<not> is_past_label t) (soup_tags past_salaries_page)
   = [Tag ''span'' [] [NavigableString ''Past Salaries''],
      Tag ''table'' [] [Tag ''tbody'' [] [past_salaries_row]],
      Tag ''tbody'' [] [past_salaries_row]] @ tags past_salaries_row"
  by (simp add: past_salaries_page_def soup_tags_def is_past_label_def is_tag_def)

lemma past_salaries_page_rows:
  "filter (is_tag ''tr'') (tags past_salaries_row) = [past_salaries_row]"
  by code_simp

lemma fetch_past_salaries_page:
  "fst (fetch_player_salaries (\<lambda>url. Inr past_salaries_page) player_name w)
   = Inr \<lparr>columns = [''season'', ''salary''],
          rows = [[(''season'', StrCell ''2021-22''), (''salary'', StrCell ''1234567'')]]\<rparr>"
  by (simp add: fetch_player_salaries_def create_session_with_retries_def Let_def
        past_salaries_page_label is_tag_def descendants_def past_salaries_page_rows
        parse_row_example DataFrame_records_example
      del: dropWhile_eq_Nil_conv)

lemma replace_str_drop_char: "replace_str [c] [] s = filter (\<lambda>x. x \<noteq> c) s"
  by (induction s) auto

text \<open>What \<^verbatim>\<open>parse_row\<close> gives for any row with a key cell and at least three cells:
  the stripped text of the row's first cell of class \<^verbatim>\<open>table-key\<close>, and the stripped
  text of its third cell up to the first space, without the characters \<^verbatim>\<open>$\<close> and
  \<^verbatim>\<open>,\<close>.\<close>

lemma parse_row_general:
  assumes "find (\<lambda>t. is_tag ''td'' t \<and> has_class ''table-key'' t) (descendants r) = Some key"
    and "2 < length (filter (is_tag ''td'') (descendants r))"
  shows "parse_row r
         = Inr [(''season'', StrCell (strip (get_text key))),
                (''salary'',
                 StrCell (filter (\<lambda>c. c \<noteq> CHR ''$'' \<and> c \<noteq> CHR '','')
                            (takeWhile (\<lambda>c. c \<noteq> CHR '' '')
                               (strip (get_text (filter (is_tag ''td'') (descendants r) ! 2))))))]"
proof -
  have "replace_str '','' '''' (replace_str ''$'' '''' s)
        = filter (\<lambda>c. c \<noteq> CHR ''$'' \<and> c \<noteq> CHR '','') s" for s
    by (simp add: replace_str_drop_char conj_commute)
  then show ?thesis using assms
    by (simp add: parse_row_def Let_def split_first_def)
qed

lemma clean_salary_text:
  "filter (\<lambda>c. c \<noteq> CHR ''$'' \<and> c \<noteq> CHR '','')
     (takeWhile (\<lambda>c. c \<noteq> CHR '' '') ''$1,234,567 (total)'') = ''1234567''"
  by code_simp

lemma parse_messy_row:
  "parse_row messy_row = Inr [(''season'', StrCell ''2021-22''), (''salary'', StrCell ''1234567'')]"
  by code_simp

text \<open>
  C8. For every body row, whatever its other cells and the markup and white space inside
  its cells: when the text of its first cell of class \<^verbatim>\<open>table-key\<close> is
  \<^verbatim>\<open>2021-22\<close> and the text of its third cell is \<^verbatim>\<open>$1,234,567 (total)\<close>, the parser
  gives the record with season \<^verbatim>\<open>"2021-22"\<close> and salary \<^verbatim>\<open>"1234567"\<close>, both
  strings. In general the season is the stripped text of that key cell and the salary is
  the stripped text of the third cell up to its first space, without \<^verbatim>\<open>$\<close> and
  \<^verbatim>\<open>,\<close>. So it is for a row of four cells with the key cell in second place, and a
  page with a row in the table after the \<^verbatim>\<open>Past Salaries\<close> label gives the table
  with that one record.
\<close>

theorem salary_row_example:
  "(find (\<lambda>t. is_tag ''td'' t \<and> has_class ''table-key'' t) (descendants r) = Some key
      \<and> 2 < length (filter (is_tag ''td'') (descendants r))
      \<and> strip (get_text key) = ''2021-22''
      \<and> strip (get_text (filter (is_tag ''td'') (descendants r) ! 2)) = ''$1,234,567 (total)''
    \<longrightarrow> parse_row r = Inr [(''season'', StrCell ''2021-22''), (''salary'', StrCell ''1234567'')])
   \<and> (find (\<lambda>t. is_tag ''td'' t \<and> has_class ''table-key'' t) (descendants r) = Some key
      \<and> 2 < length (filter (is_tag ''td'') (descendants r))
    \<longrightarrow> parse_row r
         = Inr [(''season'', StrCell (strip (get_text key))),
                (''salary'',
                 StrCell (filter (\<lambda>c. c \<noteq> CHR ''$'' \<and> c \<noteq> CHR '','')
                            (takeWhile (\<lambda>c. c \<noteq> CHR '' '')
                               (strip (get_text (filter (is_tag ''td'') (descendants r) ! 2))))))])
   \<and> parse_row messy_row
       = Inr [(''season'', StrCell ''2021-22''), (''salary'', StrCell ''1234567'')]
   \<and> fst (fetch_player_salaries (\<lambda>url. Inr past_salaries_page) player_name w)
     = Inr \<lparr>columns = [''season'', ''salary''],
            rows = [[(''season'', StrCell ''2021-22''), (''salary'', StrCell ''1234567'')]]\<rparr>"
proof (intro conjI impI)
  assume h: "find (\<lambda>t. is_tag ''td'' t \<and> has_class ''table-key'' t) (descendants r) = Some key
      \<and> 2 < length (filter (is_tag ''td'') (descendants r))
      \<and> strip (get_text key) = ''2021-22''
      \<and> strip (get_text (filter (is_tag ''td'') (descendants r) ! 2)) = ''$1,234,567 (total)''"
  then have "parse_row r
         = Inr [(''season'', StrCell (strip (get_text key))),
                (''salary'',
                 StrCell (filter (\<lambda>c. c \<noteq> CHR ''$'' \<and> c \<noteq> CHR '','')
                            (takeWhile (\<lambda>c. c \<noteq> CHR '' '')
                               (strip (get_text (filter (is_tag ''td'') (descendants r) ! 2))))))]"
    using parse_row_general[of r key] by blast
  then show "parse_row r
             = Inr [(''season'', StrCell ''2021-22''), (''salary'', StrCell ''1234567'')]"
    using h by (simp only: clean_salary_text)
next
  assume "find (\<lambda>t. is_tag ''td'' t \<and> has_class ''table-key'' t) (descendants r) = Some key
      \<and> 2 < length (filter (is_tag ''td'') (descendants r))"
  then show "parse_row r
         = Inr [(''season'', StrCell (strip (get_text key))),
                (''salary'',
                 StrCell (filter (\<lambda>c. c \<noteq> CHR ''$'' \<and> c \<noteq> CHR '','')
                            (takeWhile (\<lambda>c. c \<noteq> CHR '' '')
                               (strip (get_text (filter (is_tag ''td'') (descendants r) ! 2))))))]"
    using parse_row_general[of r key] by blast
next
  show "parse_row messy_row
       = Inr [(''season'', StrCell ''2021-22''), (''salary'', StrCell ''1234567'')]"
    by (rule parse_messy_row)
next
  show "fst (fetch_player_salaries (\<lambda>url. Inr past_salaries_page) player_name w)
     = Inr \<lparr>columns = [''season'', ''salary''],
            rows = [[(''season'', StrCell ''2021-22''), (''salary'', StrCell ''1234567'')]]\<rparr>"
    by (rule fetch_past_salaries_page)
qed

lemma messy_row_cells:
  "find (\<lambda>t. is_tag ''td'' t \<and> has_class ''table-key'' t) (descendants messy_row)
     = Some messy_key
   \<and> 2 < length (filter (is_tag ''td'') (descendants messy_row))
   \<and> strip (get_text messy_key) = ''2021-22''
   \<and> strip (get_text (filter (is_tag ''td'') (descendants messy_row) ! 2))
       = ''$1,234,567 (total)''"
  by code_simp

theorem salary_row_example_witness:
  "find (\<lambda>t. is_tag ''td'' t \<and> has_class ''table-key'' t) (descendants messy_row)
     = Some messy_key
   \<and> 2 < length (filter (is_tag ''td'') (descendants messy_row))
   \<and> strip (get_text messy_key) = ''2021-22''
   \<and> strip (get_text (filter (is_tag ''td'') (descendants messy_row) ! 2))
       = ''$1,234,567 (total)''
   \<and> parse_row messy_row
       = Inr [(''season'', StrCell ''2021-22''), (''salary'', StrCell ''1234567'')]
   \<and> parse_row messy_row
       = Inr [(''season'', StrCell (strip (get_text messy_key))),
              (''salary'',
               StrCell (filter (\<lambda>c. c \<noteq> CHR ''$'' \<and> c \<noteq> CHR '','')
                          (takeWhile (\<lambda>c. c \<noteq> CHR '' '')
                             (strip (get_text
                                (filter (is_tag ''td'') (descendants messy_row) ! 2))))))]"
  using salary_row_example[of messy_row messy_key] messy_row_cells by blast

lemma player_urls:
  "player_url ''A B'' = ''https://hoopshype.com/player/a-b/salary/''"
  "player_url ''C D'' = ''https://hoopshype.com/player/c-d/salary/''"
  by code_simp+

section \<open>Effects\<close>

lemma trace_emit: "trace (emit e w) = trace w @ [e]"
  by (simp add: emit_def)

lemma sessions_emit: "sessions (emit e w) = sessions w"
  by (simp add: emit_def)

lemma trace_print_line: "trace (print_line m w) = trace w @ [Print m]"
  by (simp add: print_line_def trace_emit)

lemma trace_sleep: "trace (sleep n w) = trace w @ [Sleep n]"
  by (simp add: sleep_def trace_emit)

lemma sessions_print_line: "sessions (print_line m w) = sessions w"
  by (simp add: print_line_def sessions_emit)

lemma sessions_sleep: "sessions (sleep n w) = sessions w"
  by (simp add: sleep_def sessions_emit)

lemma pd_concat_returns: "dfs \<noteq> [] \<Longrightarrow> \<exists>tbl. pd_concat dfs = Inr tbl"
  by (simp add: pd_concat_def Let_def)

section \<open>The statistics loop\<close>

text \<open>Running the loop over two rosters in a row is running it over their concatenation.\<close>

lemma stats_loop_append:
  "stats_loop career (xs @ ys) acc w =
     (case stats_loop career xs acc w of (acc1, w1) \<Rightarrow> stats_loop career ys acc1 w1)"
  by (induction xs arbitrary: acc w) (simp_all split: sum.splits)

text \<open>The tables collected do not depend on the effects so far.\<close>

lemma stats_loop_world: "fst (stats_loop career ps acc w) = fst (stats_loop career ps acc w')"
proof (induction ps arbitrary: acc w w')
  case Nil
  show ?case by simp
next
  case (Cons p ps)
  show ?case
  proof (cases "fetch_player_stats career (id' p)")
    case (Inl e)
    then show ?thesis using Cons.IH by simp
  next
    case (Inr st)
    then show ?thesis using Cons.IH by simp
  qed
qed

lemma stats_loop_acc: "fst (stats_loop career ps acc w) = acc @ fst (stats_loop career ps [] w)"
proof (induction ps arbitrary: acc w)
  case Nil
  show ?case by simp
next
  case (Cons p ps)
  show ?case
  proof (cases "fetch_player_stats career (id' p)")
    case (Inl e)
    then show ?thesis using Cons.IH[of acc] by simp
  next
    case (Inr st)
    let ?x = "set_column st ''player_id'' (IntCell (id' p))"
    show ?thesis
    proof (cases "frame_empty st")
      case True
      then show ?thesis using Inr Cons.IH[of acc] by simp
    next
      case False
      have "fst (stats_loop career ps (acc @ [?x]) (sleep 1 w))
            = (acc @ [?x]) @ fst (stats_loop career ps [] (sleep 1 w))"
        by (rule Cons.IH)
      moreover have "fst (stats_loop career ps [?x] (sleep 1 w))
            = [?x] @ fst (stats_loop career ps [] (sleep 1 w))"
        by (rule Cons.IH)
      ultimately show ?thesis using Inr False by simp
    qed
  qed
qed

text \<open>The effects do not depend on the tables collected so far.\<close>

lemma stats_loop_snd: "snd (stats_loop career ps acc w) = snd (stats_loop career ps acc' w)"
proof (induction ps arbitrary: acc acc' w)
  case Nil
  show ?case by simp
next
  case (Cons p ps)
  show ?case
  proof (cases "fetch_player_stats career (id' p)")
    case (Inl e)
    then show ?thesis using Cons.IH by simp
  next
    case (Inr st)
    then show ?thesis using Cons.IH by simp
  qed
qed

lemma stats_loop_trace: "\<exists>evs. trace (snd (stats_loop career ps acc w)) = trace w @ evs"
proof (induction ps arbitrary: acc w)
  case Nil
  show ?case by simp
next
  case (Cons p ps)
  show ?case
  proof (cases "fetch_player_stats career (id' p)")
    case (Inl e)
    let ?w = "print_line (''Failed to fetch stats for player '' @ full_name p @ '': '' @ str_of e) w"
    obtain evs where "trace (snd (stats_loop career ps acc ?w)) = trace ?w @ evs"
      using Cons.IH by blast
    then show ?thesis using Inl by (simp add: trace_print_line)
  next
    case (Inr st)
    let ?acc = "if \<not> frame_empty st then acc @ [set_column st ''player_id'' (IntCell (id' p))] else acc"
    obtain evs where "trace (snd (stats_loop career ps ?acc (sleep 1 w))) = trace (sleep 1 w) @ evs"
      using Cons.IH by blast
    then show ?thesis using Inr by (simp add: trace_sleep)
  qed
qed

lemma fetch_all_player_stats_fst:
  "fst (fetch_all_player_stats career ps w) =
     (if fst (stats_loop career ps [] w) \<noteq> [] then pd_concat (fst (stats_loop career ps [] w))
      else Inr DataFrame)"
  by (simp add: fetch_all_player_stats_def split: prod.splits)

lemma fetch_all_player_stats_snd:
  "snd (fetch_all_player_stats career ps w) = snd (stats_loop career ps [] w)"
  by (simp add: fetch_all_player_stats_def split: prod.splits)

lemma fetch_all_player_stats_returns:
  "\<exists>tbl. fst (fetch_all_player_stats career ps w) = Inr tbl"
  using pd_concat_returns by (simp add: fetch_all_player_stats_fst)

text \<open>A player whose fetch raises: the tables are those of the roster without the player,
  and the run goes on after the log line.\<close>

lemma stats_loop_skip:
  assumes "fetch_player_stats career (id' p) = Inl e"
  shows "fst (stats_loop career (before @ p # after) [] w)
           = fst (stats_loop career (before @ after) [] w)"
    and "snd (stats_loop career (before @ p # after) [] w)
           = snd (stats_loop career after []
               (print_line (''Failed to fetch stats for player '' @ full_name p @ '': '' @ str_of e)
                  (snd (stats_loop career before [] w))))"
proof -
  obtain a1 w1 where b: "stats_loop career before [] w = (a1, w1)"
    by (cases "stats_loop career before [] w")
  let ?w = "print_line (''Failed to fetch stats for player '' @ full_name p @ '': '' @ str_of e) w1"
  have l: "stats_loop career (before @ p # after) [] w = stats_loop career after a1 ?w"
    using b assms by (simp add: stats_loop_append)
  have r: "stats_loop career (before @ after) [] w = stats_loop career after a1 w1"
    using b by (simp add: stats_loop_append)
  show "fst (stats_loop career (before @ p # after) [] w)
           = fst (stats_loop career (before @ after) [] w)"
    using l r stats_loop_world[of career after a1 ?w w1] by simp
  show "snd (stats_loop career (before @ p # after) [] w)
           = snd (stats_loop career after []
               (print_line (''Failed to fetch stats for player '' @ full_name p @ '': '' @ str_of e)
                  (snd (stats_loop career before [] w))))"
    using l b stats_loop_snd[of career after a1 ?w "[]"] by simp
qed

section \<open>The awards loop\<close>

text \<open>Running the loop over two rosters in a row is running it over their concatenation.\<close>

lemma awards_loop_append:
  "awards_loop info (xs @ ys) acc w =
     (case awards_loop info xs acc w of (acc1, w1) \<Rightarrow> awards_loop info ys acc1 w1)"
  by (induction xs arbitrary: acc w) (simp_all split: sum.splits)

text \<open>The tables collected do not depend on the effects so far.\<close>

lemma awards_loop_world: "fst (awards_loop info ps acc w) = fst (awards_loop info ps acc w')"
proof (induction ps arbitrary: acc w w')
  case Nil
  show ?case by simp
next
  case (Cons p ps)
  show ?case
  proof (cases "fetch_player_awards info (id' p)")
    case (Inl e)
    then show ?thesis using Cons.IH by simp
  next
    case (Inr aw)
    then show ?thesis using Cons.IH by simp
  qed
qed

lemma awards_loop_acc: "fst (awards_loop info ps acc w) = acc @ fst (awards_loop info ps [] w)"
proof (induction ps arbitrary: acc w)
  case Nil
  show ?case by simp
next
  case (Cons p ps)
  show ?case
  proof (cases "fetch_player_awards info (id' p)")
    case (Inl e)
    then show ?thesis using Cons.IH[of acc] by simp
  next
    case (Inr aw)
    let ?x = "set_column aw ''player_id'' (IntCell (id' p))"
    show ?thesis
    proof (cases "frame_empty aw")
      case True
      then show ?thesis using Inr Cons.IH[of acc] by simp
    next
      case False
      have "fst (awards_loop info ps (acc @ [?x]) (sleep 1 w))
            = (acc @ [?x]) @ fst (awards_loop info ps [] (sleep 1 w))"
        by (rule Cons.IH)
      moreover have "fst (awards_loop info ps [?x] (sleep 1 w))
            = [?x] @ fst (awards_loop info ps [] (sleep 1 w))"
        by (rule Cons.IH)
      ultimately show ?thesis using Inr False by simp
    qed
  qed
qed

text \<open>The effects do not depend on the tables collected so far.\<close>

lemma awards_loop_snd: "snd (awards_loop info ps acc w) = snd (awards_loop info ps acc' w)"
proof (induction ps arbitrary: acc acc' w)
  case Nil
  show ?case by simp
next
  case (Cons p ps)
  show ?case
  proof (cases "fetch_player_awards info (id' p)")
    case (Inl e)
    then show ?thesis using Cons.IH by simp
  next
    case (Inr aw)
    then show ?thesis using Cons.IH by simp
  qed
qed

lemma awards_loop_trace: "\<exists>evs. trace (snd (awards_loop info ps acc w)) = trace w @ evs"
proof (induction ps arbitrary: acc w)
  case Nil
  show ?case by simp
next
  case (Cons p ps)
  show ?case
  proof (cases "fetch_player_awards info (id' p)")
    case (Inl e)
    let ?w = "print_line (''Failed to fetch awards for player '' @ full_name p @ '': '' @ str_of e) w"
    obtain evs where "trace (snd (awards_loop info ps acc ?w)) = trace ?w @ evs"
      using Cons.IH by blast
    then show ?thesis using Inl by (simp add: trace_print_line)
  next
    case (Inr aw)
    let ?acc = "if \<not> frame_empty aw then acc @ [set_column aw ''player_id'' (IntCell (id' p))] else acc"
    obtain evs where "trace (snd (awards_loop info ps ?acc (sleep 1 w))) = trace (sleep 1 w) @ evs"
      using Cons.IH by blast
    then show ?thesis using Inr by (simp add: trace_sleep)
  qed
qed

lemma fetch_all_player_awards_fst:
  "fst (fetch_all_player_awards info ps w) =
     (if fst (awards_loop info ps [] w) \<noteq> [] then pd_concat (fst (awards_loop info ps [] w))
      else Inr DataFrame)"
  by (simp add: fetch_all_player_awards_def split: prod.splits)

lemma fetch_all_player_awards_snd:
  "snd (fetch_all_player_awards info ps w) = snd (awards_loop info ps [] w)"
  by (simp add: fetch_all_player_awards_def split: prod.splits)

lemma fetch_all_player_awards_returns:
  "\<exists>tbl. fst (fetch_all_player_awards info ps w) = Inr tbl"
  using pd_concat_returns by (simp add: fetch_all_player_awards_fst)

text \<open>A player whose fetch raises: the tables are those of the roster without the player,
  and the run goes on after the log line.\<close>

lemma awards_loop_skip:
  assumes "fetch_player_awards info (id' p) = Inl e"
  shows "fst (awards_loop info (before @ p # after) [] w)
           = fst (awards_loop info (before @ after) [] w)"
    and "snd (awards_loop info (before @ p # after) [] w)
           = snd (awards_loop info after []
               (print_line (''Failed to fetch awards for player '' @ full_name p @ '': '' @ str_of e)
                  (snd (awards_loop info before [] w))))"
proof -
  obtain a1 w1 where b: "awards_loop info before [] w = (a1, w1)"
    by (cases "awards_loop info before [] w")
  let ?w = "print_line (''Failed to fetch awards for player '' @ full_name p @ '': '' @ str_of e) w1"
  have l: "awards_loop info (before @ p # after) [] w = awards_loop info after a1 ?w"
    using b assms by (simp add: awards_loop_append)
  have r: "awards_loop info (before @ after) [] w = awards_loop info after a1 w1"
    using b by (simp add: awards_loop_append)
  show "fst (awards_loop info (before @ p # after) [] w)
           = fst (awards_loop info (before @ after) [] w)"
    using l r awards_loop_world[of info after a1 ?w w1] by simp
  show "snd (awards_loop info (before @ p # after) [] w)
           = snd (awards_loop info after []
               (print_line (''Failed to fetch awards for player '' @ full_name p @ '': '' @ str_of e)
                  (snd (awards_loop info before [] w))))"
    using l b awards_loop_snd[of info after a1 ?w "[]"] by simp
qed

section \<open>The salary loop\<close>

text \<open>What one salary fetch returns does not depend on the effects so far; it creates
  one session, sends one request through it, and prints at most the "not found" line.\<close>

lemma fetch_player_salaries_world:
  "fst (fetch_player_salaries http n w) = fst (fetch_player_salaries http n w')"
proof (cases "http (player_url n)")
  case (Inl e)
  then show ?thesis
    by (simp add: fetch_player_salaries_def create_session_with_retries_def)
next
  case (Inr soup)
  note soup = this
  show ?thesis
  proof (cases "dropWhile (\<lambda>t. \<not> is_past_label t) (soup_tags soup)")
    case Nil
    then show ?thesis using soup
      by (simp add: fetch_player_salaries_def create_session_with_retries_def
               del: dropWhile_eq_Nil_conv)
  next
    case (Cons label after)
    then show ?thesis using soup
      by (simp add: fetch_player_salaries_def create_session_with_retries_def Let_def
               del: dropWhile_eq_Nil_conv split: option.splits sum.splits)
  qed
qed

lemma fetch_player_salaries_sessions:
  "sessions (snd (fetch_player_salaries http n w)) = Suc (sessions w)"
  by (simp add: fetch_player_salaries_def create_session_with_retries_def Let_def
                sessions_emit sessions_print_line
           split: sum.splits list.splits option.splits)

lemma fetch_player_salaries_trace:
  "\<exists>ms. trace (snd (fetch_player_salaries http n w))
        = trace w @ [NewSession (sessions w), Get (sessions w) (player_url n)] @ map Print ms"
proof -
  let ?t = "trace w @ [NewSession (sessions w), Get (sessions w) (player_url n)]"
  have "trace (snd (fetch_player_salaries http n w)) = ?t @ map Print []
      \<or> trace (snd (fetch_player_salaries http n w))
          = ?t @ map Print [''Past salaries table not found for player '' @ n]"
    by (simp add: fetch_player_salaries_def create_session_with_retries_def Let_def
                  trace_emit trace_print_line
             split: sum.splits list.splits option.splits)
  then show ?thesis unfolding append_assoc by blast
qed

lemma salaries_loop_append:
  "salaries_loop http (xs @ ys) acc w =
     (case salaries_loop http xs acc w of (acc1, w1) \<Rightarrow> salaries_loop http ys acc1 w1)"
  by (induction xs arbitrary: acc w) (simp_all split: sum.splits prod.splits)

lemma salaries_loop_world:
  "fst (salaries_loop http ps acc w) = fst (salaries_loop http ps acc w')"
proof (induction ps arbitrary: acc w w')
  case Nil
  show ?case by simp
next
  case (Cons p ps)
  obtain r w1 where a: "fetch_player_salaries http (full_name p) w = (r, w1)"
    by (cases "fetch_player_salaries http (full_name p) w")
  obtain r' w1' where b: "fetch_player_salaries http (full_name p) w' = (r', w1')"
    by (cases "fetch_player_salaries http (full_name p) w'")
  have "r' = r" using a b fetch_player_salaries_world[of http "full_name p" w w'] by simp
  with b have b': "fetch_player_salaries http (full_name p) w' = (r, w1')" by simp
  show ?case
  proof (cases r)
    case (Inl e)
    then show ?thesis using a b' Cons.IH by simp
  next
    case (Inr sal)
    then show ?thesis using a b' Cons.IH by simp
  qed
qed

lemma salaries_loop_acc:
  "fst (salaries_loop http ps acc w) = acc @ fst (salaries_loop http ps [] w)"
proof (induction ps arbitrary: acc w)
  case Nil
  show ?case by simp
next
  case (Cons p ps)
  obtain r w1 where a: "fetch_player_salaries http (full_name p) w = (r, w1)"
    by (cases "fetch_player_salaries http (full_name p) w")
  show ?case
  proof (cases r)
    case (Inl e)
    then show ?thesis using a Cons.IH[of acc] by simp
  next
    case (Inr sal)
    let ?x = "set_column sal ''full_name'' (StrCell (full_name p))"
    show ?thesis
    proof (cases "frame_empty sal")
      case True
      then show ?thesis using a Inr Cons.IH[of acc] by simp
    next
      case False
      have "fst (salaries_loop http ps (acc @ [?x]) (sleep 1 w1))
            = (acc @ [?x]) @ fst (salaries_loop http ps [] (sleep 1 w1))"
        by (rule Cons.IH)
      moreover have "fst (salaries_loop http ps [?x] (sleep 1 w1))
            = [?x] @ fst (salaries_loop http ps [] (sleep 1 w1))"
        by (rule Cons.IH)
      ultimately show ?thesis using a Inr False by simp
    qed
  qed
qed

lemma salaries_loop_snd:
  "snd (salaries_loop http ps acc w) = snd (salaries_loop http ps acc' w)"
proof (induction ps arbitrary: acc acc' w)
  case Nil
  show ?case by simp
next
  case (Cons p ps)
  obtain r w1 where a: "fetch_player_salaries http (full_name p) w = (r, w1)"
    by (cases "fetch_player_salaries http (full_name p) w")
  show ?case
  proof (cases r)
    case (Inl e)
    then show ?thesis using a Cons.IH by simp
  next
    case (Inr sal)
    then show ?thesis using a Cons.IH by simp
  qed
qed

lemma salaries_loop_trace: "\<exists>evs. trace (snd (salaries_loop http ps acc w)) = trace w @ evs"
proof (induction ps arbitrary: acc w)
  case Nil
  show ?case by simp
next
  case (Cons p ps)
  obtain r w1 where a: "fetch_player_salaries http (full_name p) w = (r, w1)"
    by (cases "fetch_player_salaries http (full_name p) w")
  obtain ms where "trace (snd (fetch_player_salaries http (full_name p) w))
      = trace w @ [NewSession (sessions w), Get (sessions w) (player_url (full_name p))] @ map Print ms"
    using fetch_player_salaries_trace by blast
  with a have w1: "\<exists>evs. trace w1 = trace w @ evs" by simp
  show ?case
  proof (cases r)
    case (Inl e)
    let ?w = "print_line (''Failed to fetch salaries for player '' @ full_name p @ '': '' @ str_of e) w1"
    obtain evs where "trace (snd (salaries_loop http ps acc ?w)) = trace ?w @ evs"
      using Cons.IH by blast
    then show ?thesis using a Inl w1 by (auto simp: trace_print_line)
  next
    case (Inr sal)
    let ?acc = "if \<not> frame_empty sal then acc @ [set_column sal ''full_name'' (StrCell (full_name p))] else acc"
    obtain evs where "trace (snd (salaries_loop http ps ?acc (sleep 1 w1))) = trace (sleep 1 w1) @ evs"
      using Cons.IH by blast
    then show ?thesis using a Inr w1 by (auto simp: trace_sleep)
  qed
qed

lemma fetch_all_player_salaries_fst:
  "fst (fetch_all_player_salaries http ps w) =
     (if fst (salaries_loop http ps [] w) \<noteq> [] then pd_concat (fst (salaries_loop http ps [] w))
      else Inr DataFrame)"
  by (simp add: fetch_all_player_salaries_def split: prod.splits)

lemma fetch_all_player_salaries_snd:
  "snd (fetch_all_player_salaries http ps w) = snd (salaries_loop http ps [] w)"
  by (simp add: fetch_all_player_salaries_def split: prod.splits)

lemma fetch_all_player_salaries_returns:
  "\<exists>tbl. fst (fetch_all_player_salaries http ps w) = Inr tbl"
  using pd_concat_returns by (simp add: fetch_all_player_salaries_fst)

lemma salaries_loop_skip:
  assumes "fst (fetch_player_salaries http (full_name p) w) = Inl e"
  shows "fst (salaries_loop http (before @ p # after) [] w)
           = fst (salaries_loop http (before @ after) [] w)"
    and "snd (salaries_loop http (before @ p # after) [] w)
           = snd (salaries_loop http after []
               (print_line (''Failed to fetch salaries for player '' @ full_name p @ '': '' @ str_of e)
                  (snd (fetch_player_salaries http (full_name p)
                     (snd (salaries_loop http before [] w))))))"
proof -
  obtain a1 w1 where b: "salaries_loop http before [] w = (a1, w1)"
    by (cases "salaries_loop http before [] w")
  obtain r w2 where f: "fetch_player_salaries http (full_name p) w1 = (r, w2)"
    by (cases "fetch_player_salaries http (full_name p) w1")
  have "r = Inl e"
    using f assms fetch_player_salaries_world[of http "full_name p" w1 w] by simp
  with f have f': "fetch_player_salaries http (full_name p) w1 = (Inl e, w2)" by simp
  let ?w = "print_line (''Failed to fetch salaries for player '' @ full_name p @ '': '' @ str_of e) w2"
  have l: "salaries_loop http (before @ p # after) [] w = salaries_loop http after a1 ?w"
    using b f' by (simp add: salaries_loop_append)
  have r: "salaries_loop http (before @ after) [] w = salaries_loop http after a1 w1"
    using b by (simp add: salaries_loop_append)
  show "fst (salaries_loop http (before @ p # after) [] w)
           = fst (salaries_loop http (before @ after) [] w)"
    using l r salaries_loop_world[of http after a1 ?w w1] by simp
  show "snd (salaries_loop http (before @ p # after) [] w)
           = snd (salaries_loop http after []
               (print_line (''Failed to fetch salaries for player '' @ full_name p @ '': '' @ str_of e)
                  (snd (fetch_player_salaries http (full_name p)
                     (snd (salaries_loop http before [] w))))))"
    using l b f' salaries_loop_snd[of http after a1 ?w "[]"] by simp
qed

section \<open>A fetch that raises\<close>

text \<open>
  When the fetch of a player raises in the statistics, awards or salary loop, the loop
  prints a line that names the player and the error and goes on with the next player:
  the state at the end is that of running the rest of the roster from the state with
  that line added, the table returned is the one the roster without the player gives,
  so that player contributes no row, and the function returns a table.
\<close>

lemma failed_player_is_logged_and_skipped:
  "(fetch_player_stats career (id' p) = Inl e \<longrightarrow>
      fst (fetch_all_player_stats career (before @ p # after) w)
        = fst (fetch_all_player_stats career (before @ after) w)
    \<and> (\<exists>tbl. fst (fetch_all_player_stats career (before @ p # after) w) = Inr tbl)
    \<and> snd (fetch_all_player_stats career (before @ p # after) w)
        = snd (fetch_all_player_stats career after
            (print_line (''Failed to fetch stats for player '' @ full_name p @ '': '' @ str_of e)
               (snd (fetch_all_player_stats career before w))))
    \<and> Print (''Failed to fetch stats for player '' @ full_name p @ '': '' @ str_of e)
        \<in> set (trace (snd (fetch_all_player_stats career (before @ p # after) w))))
   \<and> (fetch_player_awards info (id' p) = Inl e \<longrightarrow>
      fst (fetch_all_player_awards info (before @ p # after) w)
        = fst (fetch_all_player_awards info (before @ after) w)
    \<and> (\<exists>tbl. fst (fetch_all_player_awards info (before @ p # after) w) = Inr tbl)
    \<and> snd (fetch_all_player_awards info (before @ p # after) w)
        = snd (fetch_all_player_awards info after
            (print_line (''Failed to fetch awards for player '' @ full_name p @ '': '' @ str_of e)
               (snd (fetch_all_player_awards info before w))))
    \<and> Print (''Failed to fetch awards for player '' @ full_name p @ '': '' @ str_of e)
        \<in> set (trace (snd (fetch_all_player_awards info (before @ p # after) w))))
   \<and> (fst (fetch_player_salaries http (full_name p) w) = Inl e \<longrightarrow>
      fst (fetch_all_player_salaries http (before @ p # after) w)
        = fst (fetch_all_player_salaries http (before @ after) w)
    \<and> (\<exists>tbl. fst (fetch_all_player_salaries http (before @ p # after) w) = Inr tbl)
    \<and> snd (fetch_all_player_salaries http (before @ p # after) w)
        = snd (fetch_all_player_salaries http after
            (print_line (''Failed to fetch salaries for player '' @ full_name p @ '': '' @ str_of e)
               (snd (fetch_player_salaries http (full_name p)
                  (snd (fetch_all_player_salaries http before w))))))
    \<and> Print (''Failed to fetch salaries for player '' @ full_name p @ '': '' @ str_of e)
        \<in> set (trace (snd (fetch_all_player_salaries http (before @ p # after) w))))"
proof (intro conjI impI)
  assume f: "fetch_player_stats career (id' p) = Inl e"
  let ?m = "''Failed to fetch stats for player '' @ full_name p @ '': '' @ str_of e"
  show "fst (fetch_all_player_stats career (before @ p # after) w)
        = fst (fetch_all_player_stats career (before @ after) w)"
    by (simp only: fetch_all_player_stats_fst stats_loop_skip(1)[OF f])
  show "\<exists>tbl. fst (fetch_all_player_stats career (before @ p # after) w) = Inr tbl"
    by (rule fetch_all_player_stats_returns)
  show s: "snd (fetch_all_player_stats career (before @ p # after) w)
        = snd (fetch_all_player_stats career after
            (print_line ?m (snd (fetch_all_player_stats career before w))))"
    by (simp only: fetch_all_player_stats_snd stats_loop_skip(2)[OF f])
  obtain evs where "trace (snd (stats_loop career after []
            (print_line ?m (snd (fetch_all_player_stats career before w)))))
        = trace (print_line ?m (snd (fetch_all_player_stats career before w))) @ evs"
    using stats_loop_trace by blast
  then show "Print ?m \<in> set (trace (snd (fetch_all_player_stats career (before @ p # after) w)))"
    by (simp add: s fetch_all_player_stats_snd[of career after] trace_print_line)
next
  assume f: "fetch_player_awards info (id' p) = Inl e"
  let ?m = "''Failed to fetch awards for player '' @ full_name p @ '': '' @ str_of e"
  show "fst (fetch_all_player_awards info (before @ p # after) w)
        = fst (fetch_all_player_awards info (before @ after) w)"
    by (simp only: fetch_all_player_awards_fst awards_loop_skip(1)[OF f])
  show "\<exists>tbl. fst (fetch_all_player_awards info (before @ p # after) w) = Inr tbl"
    by (rule fetch_all_player_awards_returns)
  show s: "snd (fetch_all_player_awards info (before @ p # after) w)
        = snd (fetch_all_player_awards info after
            (print_line ?m (snd (fetch_all_player_awards info before w))))"
    by (simp only: fetch_all_player_awards_snd awards_loop_skip(2)[OF f])
  obtain evs where "trace (snd (awards_loop info after []
            (print_line ?m (snd (fetch_all_player_awards info before w)))))
        = trace (print_line ?m (snd (fetch_all_player_awards info before w))) @ evs"
    using awards_loop_trace by blast
  then show "Print ?m \<in> set (trace (snd (fetch_all_player_awards info (before @ p # after) w)))"
    by (simp add: s fetch_all_player_awards_snd[of info after] trace_print_line)
next
  assume f: "fst (fetch_player_salaries http (full_name p) w) = Inl e"
  let ?m = "''Failed to fetch salaries for player '' @ full_name p @ '': '' @ str_of e"
  let ?w = "snd (fetch_player_salaries http (full_name p)
                  (snd (fetch_all_player_salaries http before w)))"
  show "fst (fetch_all_player_salaries http (before @ p # after) w)
        = fst (fetch_all_player_salaries http (before @ after) w)"
    by (simp only: fetch_all_player_salaries_fst salaries_loop_skip(1)[OF f])
  show "\<exists>tbl. fst (fetch_all_player_salaries http (before @ p # after) w) = Inr tbl"
    by (rule fetch_all_player_salaries_returns)
  show s: "snd (fetch_all_player_salaries http (before @ p # after) w)
        = snd (fetch_all_player_salaries http after (print_line ?m ?w))"
    by (simp only: fetch_all_player_salaries_snd salaries_loop_skip(2)[OF f])
  obtain evs where "trace (snd (salaries_loop http after [] (print_line ?m ?w)))
        = trace (print_line ?m ?w) @ evs"
    using salaries_loop_trace by blast
  then show "Print ?m \<in> set (trace (snd (fetch_all_player_salaries http (before @ p # after) w)))"
    by (simp add: s fetch_all_player_salaries_snd[of http after] trace_print_line)
qed

lemma flaky_salary_fetch:
  "fst (fetch_player_salaries flaky_site ''C D'' w) = Inl (Failure ''timed out'')"
  by (simp add: fetch_player_salaries_def create_session_with_retries_def flaky_site_def)

lemma failed_player_is_logged_and_skipped_example:
  "fetch_player_stats flaky_career (id' C_D) = Inl (Failure ''timed out'')
   \<and> fetch_player_awards flaky_info (id' C_D) = Inl (Failure ''timed out'')
   \<and> fst (fetch_player_salaries flaky_site (full_name C_D) w0) = Inl (Failure ''timed out'')
   \<and> fst (fetch_all_player_stats flaky_career [A_B, C_D] w0)
       = fst (fetch_all_player_stats flaky_career [A_B] w0)
   \<and> Print ''Failed to fetch stats for player C D: timed out''
       \<in> set (trace (snd (fetch_all_player_stats flaky_career [A_B, C_D] w0)))
   \<and> fst (fetch_all_player_awards flaky_info [A_B, C_D] w0)
       = fst (fetch_all_player_awards flaky_info [A_B] w0)
   \<and> Print ''Failed to fetch awards for player C D: timed out''
       \<in> set (trace (snd (fetch_all_player_awards flaky_info [A_B, C_D] w0)))
   \<and> fst (fetch_all_player_salaries flaky_site [A_B, C_D] w0)
       = fst (fetch_all_player_salaries flaky_site [A_B] w0)
   \<and> Print ''Failed to fetch salaries for player C D: timed out''
       \<in> set (trace (snd (fetch_all_player_salaries flaky_site [A_B, C_D] w0)))"
proof -
  have h1: "fetch_player_stats flaky_career (id' C_D) = Inl (Failure ''timed out'')"
    by (simp add: fetch_player_stats_def flaky_career_def C_D_def)
  have h2: "fetch_player_awards flaky_info (id' C_D) = Inl (Failure ''timed out'')"
    by (simp add: fetch_player_awards_def flaky_info_def C_D_def)
  have h3: "fst (fetch_player_salaries flaky_site (full_name C_D) w0) = Inl (Failure ''timed out'')"
    by (simp add: flaky_salary_fetch C_D_def)
  have m1: "''Failed to fetch stats for player '' @ full_name C_D @ '': ''
              @ str_of (Failure ''timed out'')
            = ''Failed to fetch stats for player C D: timed out''"
    by (simp add: C_D_def)
  have m2: "''Failed to fetch awards for player '' @ full_name C_D @ '': ''
              @ str_of (Failure ''timed out'')
            = ''Failed to fetch awards for player C D: timed out''"
    by (simp add: C_D_def)
  have m3: "''Failed to fetch salaries for player '' @ full_name C_D @ '': ''
              @ str_of (Failure ''timed out'')
            = ''Failed to fetch salaries for player C D: timed out''"
    by (simp add: C_D_def)
  have l: "[A_B] @ C_D # [] = [A_B, C_D]" "[A_B] @ [] = [A_B]"
    by simp_all
  note t = failed_player_is_logged_and_skipped
             [of flaky_career C_D "Failure ''timed out''" "[A_B]" "[]" w0 flaky_info flaky_site,
              unfolded m1 m2 m3 l]
  from t h1 h2 h3 show ?thesis by blast
qed

section \<open>Sleeps\<close>

lemma count_list_Print: "count_list (map Print ms) (Sleep n) = 0"
  by (induction ms) auto

lemma fetch_player_salaries_sleeps:
  "count_list (trace (snd (fetch_player_salaries http name w))) (Sleep n)
     = count_list (trace w) (Sleep n)"
proof -
  obtain ms where "trace (snd (fetch_player_salaries http name w))
      = trace w @ [NewSession (sessions w), Get (sessions w) (player_url name)] @ map Print ms"
    using fetch_player_salaries_trace by blast
  then show ?thesis by (simp add: count_list_Print)
qed

lemma stats_loop_sleeps:
  "count_list (trace (snd (stats_loop career ps acc w))) (Sleep n)
     = count_list (trace w) (Sleep n)
       + (if n = 1 then length (filter (\<lambda>p. \<not> isl (fetch_player_stats career (id' p))) ps)
          else 0)"
proof (induction ps arbitrary: acc w)
  case Nil
  show ?case by simp
next
  case (Cons p ps)
  show ?case
  proof (cases "fetch_player_stats career (id' p)")
    case (Inl e)
    then show ?thesis by (simp add: Cons.IH trace_print_line)
  next
    case (Inr st)
    then show ?thesis by (simp add: Cons.IH trace_sleep)
  qed
qed

lemma awards_loop_sleeps:
  "count_list (trace (snd (awards_loop info ps acc w))) (Sleep n)
     = count_list (trace w) (Sleep n)
       + (if n = 1 then length (filter (\<lambda>p. \<not> isl (fetch_player_awards info (id' p))) ps)
          else 0)"
proof (induction ps arbitrary: acc w)
  case Nil
  show ?case by simp
next
  case (Cons p ps)
  show ?case
  proof (cases "fetch_player_awards info (id' p)")
    case (Inl e)
    then show ?thesis by (simp add: Cons.IH trace_print_line)
  next
    case (Inr aw)
    then show ?thesis by (simp add: Cons.IH trace_sleep)
  qed
qed

lemma salaries_loop_sleeps:
  "count_list (trace (snd (salaries_loop http ps acc w))) (Sleep n)
     = count_list (trace w) (Sleep n)
       + (if n = 1
          then length (filter (\<lambda>p. \<not> isl (fst (fetch_player_salaries http (full_name p) w'))) ps)
          else 0)"
proof (induction ps arbitrary: acc w)
  case Nil
  show ?case by simp
next
  case (Cons p ps)
  obtain r w1 where a: "fetch_player_salaries http (full_name p) w = (r, w1)"
    by (cases "fetch_player_salaries http (full_name p) w")
  have r: "fst (fetch_player_salaries http (full_name p) w') = r"
    using a fetch_player_salaries_world[of http "full_name p" w' w] by simp
  have s: "count_list (trace w1) (Sleep n) = count_list (trace w) (Sleep n)"
    using a fetch_player_salaries_sleeps[of http "full_name p" w n] by simp
  show ?case
  proof (cases r)
    case (Inl e)
    then show ?thesis using a r s by (simp add: Cons.IH trace_print_line)
  next
    case (Inr sal)
    then show ?thesis using a r s by (simp add: Cons.IH trace_sleep)
  qed
qed

lemma flaky_salary_fetches:
  "fetch_player_salaries flaky_site ''C D'' w
   = (Inl (Failure ''timed out''),
      emit (Get (sessions w) ''https://hoopshype.com/player/c-d/salary/'')
        (emit (NewSession (sessions w)) (w\<lparr>sessions := Suc (sessions w)\<rparr>)))"
  "fetch_player_salaries flaky_site ''A B'' w
   = (Inr \<lparr>columns = [''season'', ''salary''],
           rows = [[(''season'', StrCell ''2021-22''), (''salary'', StrCell ''1234567'')]]\<rparr>,
      emit (Get (sessions w) ''https://hoopshype.com/player/a-b/salary/'')
        (emit (NewSession (sessions w)) (w\<lparr>sessions := Suc (sessions w)\<rparr>)))"
  by (simp_all add: fetch_player_salaries_def create_session_with_retries_def Let_def
        flaky_site_def player_urls past_salaries_page_label is_tag_def descendants_def
        past_salaries_page_rows parse_row_example DataFrame_records_example
      del: dropWhile_eq_Nil_conv)

text \<open>One player of the roster: the run is the run of the players before, then that
  player's fetch with the sleep or the failure line right after it, then the run of the
  players after.\<close>

lemma stats_loop_step:
  "snd (stats_loop career (before @ p # after) acc w)
   = snd (stats_loop career after acc'
       (case fetch_player_stats career (id' p) of
          Inl e \<Rightarrow> print_line
                    (''Failed to fetch stats for player '' @ full_name p @ '': '' @ str_of e)
                    (snd (stats_loop career before acc w))
        | Inr stats \<Rightarrow> sleep 1 (snd (stats_loop career before acc w))))"
proof -
  obtain a1 w1 where b: "stats_loop career before acc w = (a1, w1)"
    by (cases "stats_loop career before acc w")
  show ?thesis
  proof (cases "fetch_player_stats career (id' p)")
    case (Inl e)
    then show ?thesis using b stats_loop_snd[of career after a1 _ acc']
      by (simp add: stats_loop_append)
  next
    case (Inr st)
    then show ?thesis using b stats_loop_snd[of career after _ _ acc']
      by (simp add: stats_loop_append)
  qed
qed

lemma awards_loop_step:
  "snd (awards_loop info (before @ p # after) acc w)
   = snd (awards_loop info after acc'
       (case fetch_player_awards info (id' p) of
          Inl e \<Rightarrow> print_line
                    (''Failed to fetch awards for player '' @ full_name p @ '': '' @ str_of e)
                    (snd (awards_loop info before acc w))
        | Inr awards \<Rightarrow> sleep 1 (snd (awards_loop info before acc w))))"
proof -
  obtain a1 w1 where b: "awards_loop info before acc w = (a1, w1)"
    by (cases "awards_loop info before acc w")
  show ?thesis
  proof (cases "fetch_player_awards info (id' p)")
    case (Inl e)
    then show ?thesis using b awards_loop_snd[of info after a1 _ acc']
      by (simp add: awards_loop_append)
  next
    case (Inr aw)
    then show ?thesis using b awards_loop_snd[of info after _ _ acc']
      by (simp add: awards_loop_append)
  qed
qed

lemma salaries_loop_step:
  "snd (salaries_loop http (before @ p # after) acc w)
   = snd (salaries_loop http after acc'
       (case fetch_player_salaries http (full_name p) (snd (salaries_loop http before acc w)) of
          (Inl e, w1) \<Rightarrow>
             print_line
               (''Failed to fetch salaries for player '' @ full_name p @ '': '' @ str_of e) w1
        | (Inr salaries, w1) \<Rightarrow> sleep 1 w1))"
proof -
  obtain a1 wb where b: "salaries_loop http before acc w = (a1, wb)"
    by (cases "salaries_loop http before acc w")
  obtain r w1 where f: "fetch_player_salaries http (full_name p) wb = (r, w1)"
    by (cases "fetch_player_salaries http (full_name p) wb")
  show ?thesis
  proof (cases r)
    case (Inl e)
    then show ?thesis using b f salaries_loop_snd[of http after a1 _ acc']
      by (simp add: salaries_loop_append)
  next
    case (Inr sal)
    then show ?thesis using b f salaries_loop_snd[of http after _ _ acc']
      by (simp add: salaries_loop_append)
  qed
qed

text \<open>In the statistics and the awards loop the fetch itself leaves no event: the trace
  of a run has one event for each player, in roster order.\<close>

lemma stats_loop_events:
  "trace (snd (stats_loop career ps acc w))
   = trace w @ map (\<lambda>p. case fetch_player_stats career (id' p) of
                           Inl e \<Rightarrow> Print (''Failed to fetch stats for player ''
                                              @ full_name p @ '': '' @ str_of e)
                         | Inr stats \<Rightarrow> Sleep 1) ps"
proof (induction ps arbitrary: acc w)
  case Nil
  show ?case by simp
next
  case (Cons p ps)
  show ?case
  proof (cases "fetch_player_stats career (id' p)")
    case (Inl e)
    then show ?thesis by (simp add: Cons.IH trace_print_line)
  next
    case (Inr st)
    then show ?thesis by (simp add: Cons.IH trace_sleep)
  qed
qed

lemma awards_loop_events:
  "trace (snd (awards_loop info ps acc w))
   = trace w @ map (\<lambda>p. case fetch_player_awards info (id' p) of
                           Inl e \<Rightarrow> Print (''Failed to fetch awards for player ''
                                              @ full_name p @ '': '' @ str_of e)
                         | Inr awards \<Rightarrow> Sleep 1) ps"
proof (induction ps arbitrary: acc w)
  case Nil
  show ?case by simp
next
  case (Cons p ps)
  show ?case
  proof (cases "fetch_player_awards info (id' p)")
    case (Inl e)
    then show ?thesis by (simp add: Cons.IH trace_print_line)
  next
    case (Inr aw)
    then show ?thesis by (simp add: Cons.IH trace_sleep)
  qed
qed

text \<open>
  C6, as the collector implements it. In each of the three loops \<^verbatim>\<open>time.sleep(1)\<close>
  stands inside the \<^verbatim>\<open>try\<close> block, after the fetch. For every roster and every
  player \<open>p\<close> of it, the state at the end of the run is that of running the players
  after \<open>p\<close> from the state in which the players before \<open>p\<close> have been run, and then
  \<open>p\<close> has been fetched and, right after that fetch and before anything of the next
  player, one second has been slept when the fetch returned, with rows or without, or
  the failure line has been printed, and nothing slept, when it raised. The run of the
  empty roster changes nothing. In the statistics and the awards loop, where the fetch
  leaves no event, the trace of a run is one event for each player in roster order, the
  sleep of one second or the failure line. So the sleeps of one second of a run are as
  many as the fetches that returned, and no sleep has another duration. On the roster
  of \<^verbatim>\<open>A B\<close>, whose salary page is fetched, and \<^verbatim>\<open>C D\<close>, whose request raises,
  the sleep stands between the request of the first and the session of the second, and
  nothing follows the failure line.
\<close>

theorem sleep_follows_each_returned_fetch:
  "snd (fetch_all_player_stats career [] w) = w
   \<and> snd (fetch_all_player_stats career (before @ p # after) w)
     = snd (fetch_all_player_stats career after
         (case fetch_player_stats career (id' p) of
            Inl e \<Rightarrow> print_line
                      (''Failed to fetch stats for player '' @ full_name p @ '': '' @ str_of e)
                      (snd (fetch_all_player_stats career before w))
          | Inr stats \<Rightarrow> sleep 1 (snd (fetch_all_player_stats career before w))))
   \<and> snd (fetch_all_player_awards info [] w) = w
   \<and> snd (fetch_all_player_awards info (before @ p # after) w)
     = snd (fetch_all_player_awards info after
         (case fetch_player_awards info (id' p) of
            Inl e \<Rightarrow> print_line
                      (''Failed to fetch awards for player '' @ full_name p @ '': '' @ str_of e)
                      (snd (fetch_all_player_awards info before w))
          | Inr awards \<Rightarrow> sleep 1 (snd (fetch_all_player_awards info before w))))
   \<and> snd (fetch_all_player_salaries http [] w) = w
   \<and> snd (fetch_all_player_salaries http (before @ p # after) w)
     = snd (fetch_all_player_salaries http after
         (case fetch_player_salaries http (full_name p)
                 (snd (fetch_all_player_salaries http before w)) of
            (Inl e, w1) \<Rightarrow>
               print_line
                 (''Failed to fetch salaries for player '' @ full_name p @ '': '' @ str_of e) w1
          | (Inr salaries, w1) \<Rightarrow> sleep 1 w1))
   \<and> trace (snd (fetch_all_player_stats career players w))
     = trace w @ map (\<lambda>p. case fetch_player_stats career (id' p) of
                             Inl e \<Rightarrow> Print (''Failed to fetch stats for player ''
                                                @ full_name p @ '': '' @ str_of e)
                           | Inr stats \<Rightarrow> Sleep 1) players
   \<and> trace (snd (fetch_all_player_awards info players w))
     = trace w @ map (\<lambda>p. case fetch_player_awards info (id' p) of
                             Inl e \<Rightarrow> Print (''Failed to fetch awards for player ''
                                                @ full_name p @ '': '' @ str_of e)
                           | Inr awards \<Rightarrow> Sleep 1) players
   \<and> count_list (trace (snd (fetch_all_player_stats career players w))) (Sleep n)
     = count_list (trace w) (Sleep n)
       + (if n = 1
          then length (filter (\<lambda>p. \<not> isl (fetch_player_stats career (id' p))) players)
          else 0)
   \<and> count_list (trace (snd (fetch_all_player_awards info players w))) (Sleep n)
     = count_list (trace w) (Sleep n)
       + (if n = 1
          then length (filter (\<lambda>p. \<not> isl (fetch_player_awards info (id' p))) players)
          else 0)
   \<and> count_list (trace (snd (fetch_all_player_salaries http players w))) (Sleep n)
     = count_list (trace w) (Sleep n)
       + (if n = 1
          then length (filter (\<lambda>p. \<not> isl (fst (fetch_player_salaries http (full_name p) w)))
                         players)
          else 0)
   \<and> trace (snd (fetch_all_player_salaries flaky_site [A_B, C_D] w0))
     = [NewSession 0, Get 0 ''https://hoopshype.com/player/a-b/salary/'', Sleep 1,
        NewSession 1, Get 1 ''https://hoopshype.com/player/c-d/salary/'',
        Print ''Failed to fetch salaries for player C D: timed out'']"
proof (intro conjI)
  show "trace (snd (fetch_all_player_salaries flaky_site [A_B, C_D] w0))
     = [NewSession 0, Get 0 ''https://hoopshype.com/player/a-b/salary/'', Sleep 1,
        NewSession 1, Get 1 ''https://hoopshype.com/player/c-d/salary/'',
        Print ''Failed to fetch salaries for player C D: timed out'']"
    by (simp add: fetch_all_player_salaries_snd flaky_salary_fetches A_B_def C_D_def w0_def
          sleep_def print_line_def emit_def)
  show "snd (fetch_all_player_stats career [] w) = w"
    and "snd (fetch_all_player_awards info [] w) = w"
    and "snd (fetch_all_player_salaries http [] w) = w"
    by (simp_all add: fetch_all_player_stats_snd fetch_all_player_awards_snd
          fetch_all_player_salaries_snd)
  show "snd (fetch_all_player_stats career (before @ p # after) w)
     = snd (fetch_all_player_stats career after
         (case fetch_player_stats career (id' p) of
            Inl e \<Rightarrow> print_line
                      (''Failed to fetch stats for player '' @ full_name p @ '': '' @ str_of e)
                      (snd (fetch_all_player_stats career before w))
          | Inr stats \<Rightarrow> sleep 1 (snd (fetch_all_player_stats career before w))))"
    by (simp only: fetch_all_player_stats_snd stats_loop_step[where acc' = "[]"])
  show "snd (fetch_all_player_awards info (before @ p # after) w)
     = snd (fetch_all_player_awards info after
         (case fetch_player_awards info (id' p) of
            Inl e \<Rightarrow> print_line
                      (''Failed to fetch awards for player '' @ full_name p @ '': '' @ str_of e)
                      (snd (fetch_all_player_awards info before w))
          | Inr awards \<Rightarrow> sleep 1 (snd (fetch_all_player_awards info before w))))"
    by (simp only: fetch_all_player_awards_snd awards_loop_step[where acc' = "[]"])
  show "snd (fetch_all_player_salaries http (before @ p # after) w)
     = snd (fetch_all_player_salaries http after
         (case fetch_player_salaries http (full_name p)
                 (snd (fetch_all_player_salaries http before w)) of
            (Inl e, w1) \<Rightarrow>
               print_line
                 (''Failed to fetch salaries for player '' @ full_name p @ '': '' @ str_of e) w1
          | (Inr salaries, w1) \<Rightarrow> sleep 1 w1))"
    by (simp only: fetch_all_player_salaries_snd salaries_loop_step[where acc' = "[]"])
  show "trace (snd (fetch_all_player_stats career players w))
     = trace w @ map (\<lambda>p. case fetch_player_stats career (id' p) of
                             Inl e \<Rightarrow> Print (''Failed to fetch stats for player ''
                                                @ full_name p @ '': '' @ str_of e)
                           | Inr stats \<Rightarrow> Sleep 1) players"
    by (simp only: fetch_all_player_stats_snd stats_loop_events)
  show "trace (snd (fetch_all_player_awards info players w))
     = trace w @ map (\<lambda>p. case fetch_player_awards info (id' p) of
                             Inl e \<Rightarrow> Print (''Failed to fetch awards for player ''
                                                @ full_name p @ '': '' @ str_of e)
                           | Inr awards \<Rightarrow> Sleep 1) players"
    by (simp only: fetch_all_player_awards_snd awards_loop_events)
  show "count_list (trace (snd (fetch_all_player_stats career players w))) (Sleep n)
     = count_list (trace w) (Sleep n)
       + (if n = 1
          then length (filter (\<lambda>p. \<not> isl (fetch_player_stats career (id' p))) players)
          else 0)"
    by (simp only: fetch_all_player_stats_snd stats_loop_sleeps)
  show "count_list (trace (snd (fetch_all_player_awards info players w))) (Sleep n)
     = count_list (trace w) (Sleep n)
       + (if n = 1
          then length (filter (\<lambda>p. \<not> isl (fetch_player_awards info (id' p))) players)
          else 0)"
    by (simp only: fetch_all_player_awards_snd awards_loop_sleeps)
  show "count_list (trace (snd (fetch_all_player_salaries http players w))) (Sleep n)
     = count_list (trace w) (Sleep n)
       + (if n = 1
          then length (filter (\<lambda>p. \<not> isl (fst (fetch_player_salaries http (full_name p) w)))
                         players)
          else 0)"
    by (simp only: fetch_all_player_salaries_snd salaries_loop_sleeps[where w' = w])
qed

text \<open>
  C6, as the specification states it, fails when a fetch raises: the only event of the
  run is the log line, and no sleep follows in any of the three loops.
\<close>

theorem no_sleep_after_failed_fetch_counterexample:
  "fetch_player_stats flaky_career (id' C_D) = Inl (Failure ''timed out'')
   \<and> trace (snd (fetch_all_player_stats flaky_career [C_D] w0))
       = [Print ''Failed to fetch stats for player C D: timed out'']
   \<and> trace (snd (fetch_all_player_awards flaky_info [C_D] w0))
       = [Print ''Failed to fetch awards for player C D: timed out'']
   \<and> trace (snd (fetch_all_player_salaries flaky_site [C_D] w0))
       = [NewSession 0, Get 0 ''https://hoopshype.com/player/c-d/salary/'',
          Print ''Failed to fetch salaries for player C D: timed out'']
   \<and> Sleep 1 \<notin> set (trace (snd (fetch_all_player_stats flaky_career [C_D] w0)))
   \<and> Sleep 1 \<notin> set (trace (snd (fetch_all_player_awards flaky_info [C_D] w0)))
   \<and> Sleep 1 \<notin> set (trace (snd (fetch_all_player_salaries flaky_site [C_D] w0)))"
proof -
  have u: "player_url ''C D'' = ''https://hoopshype.com/player/c-d/salary/''"
    by code_simp
  have a: "fetch_player_stats flaky_career (id' C_D) = Inl (Failure ''timed out'')"
    by (simp add: fetch_player_stats_def flaky_career_def C_D_def)
  have b: "trace (snd (fetch_all_player_stats flaky_career [C_D] w0))
       = [Print ''Failed to fetch stats for player C D: timed out'']"
    by (simp add: fetch_all_player_stats_snd fetch_player_stats_def flaky_career_def
          trace_print_line w0_def C_D_def)
  have c: "trace (snd (fetch_all_player_awards flaky_info [C_D] w0))
       = [Print ''Failed to fetch awards for player C D: timed out'']"
    by (simp add: fetch_all_player_awards_snd fetch_player_awards_def flaky_info_def
          trace_print_line w0_def C_D_def)
  have d: "trace (snd (fetch_all_player_salaries flaky_site [C_D] w0))
       = [NewSession 0, Get 0 ''https://hoopshype.com/player/c-d/salary/'',
          Print ''Failed to fetch salaries for player C D: timed out'']"
    by (simp add: fetch_all_player_salaries_snd fetch_player_salaries_def
          create_session_with_retries_def flaky_site_def u
          trace_print_line trace_emit w0_def C_D_def)
  show ?thesis using a by (simp add: b c d)
qed

section \<open>Sessions\<close>

lemma filter_transport_Print: "filter is_transport (map Print ms) = []"
  by (induction ms) auto

lemma fetch_player_salaries_transport:
  "filter is_transport (trace (snd (fetch_player_salaries http name w)))
     = filter is_transport (trace w)
       @ [NewSession (sessions w), Get (sessions w) (player_url name)]"
proof -
  obtain ms where "trace (snd (fetch_player_salaries http name w))
      = trace w @ [NewSession (sessions w), Get (sessions w) (player_url name)] @ map Print ms"
    using fetch_player_salaries_trace by blast
  then show ?thesis by (simp add: filter_transport_Print)
qed

lemma salaries_loop_sessions:
  "sessions (snd (salaries_loop http ps acc w)) = sessions w + length ps"
proof (induction ps arbitrary: acc w)
  case Nil
  show ?case by simp
next
  case (Cons p ps)
  obtain r w1 where a: "fetch_player_salaries http (full_name p) w = (r, w1)"
    by (cases "fetch_player_salaries http (full_name p) w")
  have s: "sessions w1 = Suc (sessions w)"
    using a fetch_player_salaries_sessions[of http "full_name p" w] by simp
  show ?case
  proof (cases r)
    case (Inl e)
    then show ?thesis using a s by (simp add: Cons.IH sessions_print_line)
  next
    case (Inr sal)
    then show ?thesis using a s by (simp add: Cons.IH sessions_sleep)
  qed
qed

lemma salaries_loop_transport:
  "filter is_transport (trace (snd (salaries_loop http ps acc w)))
     = filter is_transport (trace w)
       @ concat (map (\<lambda>(k, p). [NewSession k, Get k (player_url (full_name p))])
                     (enumerate (sessions w) ps))"
proof (induction ps arbitrary: acc w)
  case Nil
  show ?case by simp
next
  case (Cons p ps)
  obtain r w1 where a: "fetch_player_salaries http (full_name p) w = (r, w1)"
    by (cases "fetch_player_salaries http (full_name p) w")
  have s: "sessions w1 = Suc (sessions w)"
    using a fetch_player_salaries_sessions[of http "full_name p" w] by simp
  have t: "filter is_transport (trace w1)
     = filter is_transport (trace w)
       @ [NewSession (sessions w), Get (sessions w) (player_url (full_name p))]"
    using a fetch_player_salaries_transport[of http "full_name p" w] by simp
  show ?case
  proof (cases r)
    case (Inl e)
    then show ?thesis using a s t
      by (simp add: Cons.IH sessions_print_line trace_print_line)
  next
    case (Inr sal)
    then show ?thesis using a s t
      by (simp add: Cons.IH sessions_sleep trace_sleep)
  qed
qed

text \<open>
  C9, as the collector implements it. \<^verbatim>\<open>fetch_player_salaries\<close> calls
  \<^verbatim>\<open>create_session_with_retries\<close> itself, so a run of
  \<^verbatim>\<open>fetch_all_player_salaries\<close> creates one new client for every player of the
  roster, in roster order, and sends that player's request, and no other, through it.
\<close>

theorem one_session_per_player:
  "sessions (snd (fetch_all_player_salaries http players w)) = sessions w + length players
   \<and> filter is_transport (trace (snd (fetch_all_player_salaries http players w)))
     = filter is_transport (trace w)
       @ concat (map (\<lambda>(k, p). [NewSession k, Get k (player_url (full_name p))])
                     (enumerate (sessions w) players))"
  by (simp only: fetch_all_player_salaries_snd salaries_loop_sessions
        salaries_loop_transport simp_thms)

text \<open>
  C9, as the specification states it, fails on a roster of two players: two clients are
  created, and the two requests go through different clients.
\<close>

theorem single_session_counterexample:
  "sessions (snd (fetch_all_player_salaries scenario_site [A_B, C_D] w0)) = 2
   \<and> filter is_transport (trace (snd (fetch_all_player_salaries scenario_site [A_B, C_D] w0)))
     = [NewSession 0, Get 0 ''https://hoopshype.com/player/a-b/salary/'',
        NewSession 1, Get 1 ''https://hoopshype.com/player/c-d/salary/'']"
proof -
  have u: "player_url ''A B'' = ''https://hoopshype.com/player/a-b/salary/''"
          "player_url ''C D'' = ''https://hoopshype.com/player/c-d/salary/''"
    by code_simp+
  have "sessions (snd (fetch_all_player_salaries scenario_site [A_B, C_D] w0))
          = sessions w0 + length [A_B, C_D]"
    by (simp only: fetch_all_player_salaries_snd salaries_loop_sessions)
  moreover have
    "filter is_transport (trace (snd (fetch_all_player_salaries scenario_site [A_B, C_D] w0)))
     = filter is_transport (trace w0)
       @ concat (map (\<lambda>(k, p). [NewSession k, Get k (player_url (full_name p))])
                     (enumerate (sessions w0) [A_B, C_D]))"
    by (simp only: fetch_all_player_salaries_snd salaries_loop_transport)
  moreover have "sessions w0 = 0" "trace w0 = []" "full_name A_B = ''A B''"
    "full_name C_D = ''C D''"
    by (simp_all add: w0_def A_B_def C_D_def)
  ultimately show ?thesis by (simp add: u)
qed

section \<open>Rows refer to the roster\<close>

lemma map_of_align:
  "map_of (align cols r) c = (if c \<in> set cols then Some (cell_of r c) else None)"
  by (induction cols) (auto simp: align_def)

lemma cell_of_align: "c \<in> set cols \<Longrightarrow> cell_of (align cols r) c = cell_of r c"
  by (simp add: cell_of_def[of "align cols r"] map_of_align)

lemma set_foldl_union_cols: "set (foldl union_cols a xs) = set a \<union> \<Union> (set ` set xs)"
  by (induction xs arbitrary: a) (auto simp: union_cols_def)

lemma cell_of_update: "cell_of (AList.update k v r) k = v"
  by (simp add: cell_of_def update_conv')

lemma tagged_set_column: "v \<in> vals \<Longrightarrow> tagged key vals (set_column df key v)"
  by (auto simp: tagged_def set_column_def cell_of_update)

text \<open>Concatenation keeps a tag that every table carries.\<close>

lemma tagged_pd_concat:
  assumes "pd_concat dfs = Inr tbl" and "\<forall>df \<in> set dfs. tagged key vals df"
  shows "tagged key vals tbl"
proof -
  let ?cols = "foldl union_cols [] (map columns dfs)"
  from assms(1) have ne: "dfs \<noteq> []"
    and tbl: "tbl = \<lparr>columns = ?cols, rows = concat (map (\<lambda>df. map (align ?cols) (rows df)) dfs)\<rparr>"
    by (auto simp: pd_concat_def Let_def split: if_splits)
  from ne obtain d where d: "d \<in> set dfs" by (cases dfs) auto
  with assms(2) have "key \<in> set (columns d)" by (simp add: tagged_def)
  with d have key: "key \<in> set ?cols" by (auto simp: set_foldl_union_cols)
  have "cell_of r key \<in> vals" if r: "r \<in> set (rows tbl)" for r
  proof -
    from r tbl obtain df r0 where df: "df \<in> set dfs" and r0: "r0 \<in> set (rows df)"
      and eq: "r = align ?cols r0"
      by auto
    from df assms(2) have t: "tagged key vals df" by blast
    have "cell_of r key = cell_of r0 key" using eq key by (simp add: cell_of_align)
    moreover have "cell_of r0 key \<in> vals" using t r0 by (simp add: tagged_def)
    ultimately show ?thesis by simp
  qed
  then show ?thesis using key tbl by (simp add: tagged_def)
qed

lemma stats_loop_tagged:
  assumes "\<forall>df \<in> set acc. tagged ''player_id'' vals df"
    and "\<forall>p \<in> set ps. IntCell (id' p) \<in> vals"
  shows "\<forall>df \<in> set (fst (stats_loop career ps acc w)). tagged ''player_id'' vals df"
  using assms
proof (induction ps arbitrary: acc w)
  case Nil
  then show ?case by simp
next
  case (Cons p ps)
  have v: "IntCell (id' p) \<in> vals" using Cons.prems(2) by simp
  have rest: "\<forall>q \<in> set ps. IntCell (id' q) \<in> vals" using Cons.prems(2) by simp
  show ?case
  proof (cases "fetch_player_stats career (id' p)")
    case (Inl e)
    then show ?thesis using Cons.IH[OF Cons.prems(1) rest] by simp
  next
    case (Inr st)
    let ?acc = "if \<not> frame_empty st then acc @ [set_column st ''player_id'' (IntCell (id' p))] else acc"
    have "\<forall>df \<in> set ?acc. tagged ''player_id'' vals df"
      using Cons.prems(1) tagged_set_column[OF v] by auto
    then have "\<forall>df \<in> set (fst (stats_loop career ps ?acc (sleep 1 w))).
                 tagged ''player_id'' vals df"
      using rest by (rule Cons.IH)
    then show ?thesis using Inr by simp
  qed
qed

lemma awards_loop_tagged:
  assumes "\<forall>df \<in> set acc. tagged ''player_id'' vals df"
    and "\<forall>p \<in> set ps. IntCell (id' p) \<in> vals"
  shows "\<forall>df \<in> set (fst (awards_loop info ps acc w)). tagged ''player_id'' vals df"
  using assms
proof (induction ps arbitrary: acc w)
  case Nil
  then show ?case by simp
next
  case (Cons p ps)
  have v: "IntCell (id' p) \<in> vals" using Cons.prems(2) by simp
  have rest: "\<forall>q \<in> set ps. IntCell (id' q) \<in> vals" using Cons.prems(2) by simp
  show ?case
  proof (cases "fetch_player_awards info (id' p)")
    case (Inl e)
    then show ?thesis using Cons.IH[OF Cons.prems(1) rest] by simp
  next
    case (Inr aw)
    let ?acc = "if \<not> frame_empty aw then acc @ [set_column aw ''player_id'' (IntCell (id' p))] else acc"
    have "\<forall>df \<in> set ?acc. tagged ''player_id'' vals df"
      using Cons.prems(1) tagged_set_column[OF v] by auto
    then have "\<forall>df \<in> set (fst (awards_loop info ps ?acc (sleep 1 w))).
                 tagged ''player_id'' vals df"
      using rest by (rule Cons.IH)
    then show ?thesis using Inr by simp
  qed
qed

lemma salaries_loop_tagged:
  assumes "\<forall>df \<in> set acc. tagged ''full_name'' vals df"
    and "\<forall>p \<in> set ps. StrCell (full_name p) \<in> vals"
  shows "\<forall>df \<in> set (fst (salaries_loop http ps acc w)). tagged ''full_name'' vals df"
  using assms
proof (induction ps arbitrary: acc w)
  case Nil
  then show ?case by simp
next
  case (Cons p ps)
  have v: "StrCell (full_name p) \<in> vals" using Cons.prems(2) by simp
  have rest: "\<forall>q \<in> set ps. StrCell (full_name q) \<in> vals" using Cons.prems(2) by simp
  obtain r w1 where a: "fetch_player_salaries http (full_name p) w = (r, w1)"
    by (cases "fetch_player_salaries http (full_name p) w")
  show ?case
  proof (cases r)
    case (Inl e)
    then show ?thesis using a Cons.IH[OF Cons.prems(1) rest] by simp
  next
    case (Inr sal)
    let ?acc = "if \<not> frame_empty sal
                then acc @ [set_column sal ''full_name'' (StrCell (full_name p))] else acc"
    have "\<forall>df \<in> set ?acc. tagged ''full_name'' vals df"
      using Cons.prems(1) tagged_set_column[OF v] by auto
    then have "\<forall>df \<in> set (fst (salaries_loop http ps ?acc (sleep 1 w1))).
                 tagged ''full_name'' vals df"
      using rest by (rule Cons.IH)
    then show ?thesis using a Inr by simp
  qed
qed

text \<open>What a loop returns is the empty table or the concatenation of tagged tables.\<close>

lemma accumulated_tagged:
  assumes "(if acc \<noteq> [] then pd_concat acc else Inr DataFrame) = Inr tbl"
    and "\<forall>df \<in> set acc. tagged key vals df"
    and "r \<in> set (rows tbl)"
  shows "key \<in> set (columns tbl) \<and> cell_of r key \<in> vals"
proof (cases "acc = []")
  case True
  then have "tbl = DataFrame" using assms(1) by simp
  then show ?thesis using assms(3) by (simp add: DataFrame_def)
next
  case False
  then have "pd_concat acc = Inr tbl" using assms(1) by simp
  then have "tagged key vals tbl" using assms(2) by (rule tagged_pd_concat)
  then show ?thesis using assms(3) by (simp add: tagged_def)
qed

lemma fetch_all_player_stats_ids:
  assumes "fst (fetch_all_player_stats career players w) = Inr tbl" and "r \<in> set (rows tbl)"
  shows "''player_id'' \<in> set (columns tbl)
         \<and> (\<exists>p \<in> set players. cell_of r ''player_id'' = IntCell (id' p))"
proof -
  let ?vals = "(\<lambda>p. IntCell (id' p)) ` set players"
  have t: "\<forall>df \<in> set (fst (stats_loop career players [] w)). tagged ''player_id'' ?vals df"
    by (rule stats_loop_tagged) simp_all
  have e: "(if fst (stats_loop career players [] w) \<noteq> [] then pd_concat (fst (stats_loop career players [] w))
            else Inr DataFrame) = Inr tbl"
    using assms(1) by (simp only: fetch_all_player_stats_fst)
  have "''player_id'' \<in> set (columns tbl) \<and> cell_of r ''player_id'' \<in> ?vals"
    by (rule accumulated_tagged[OF e t assms(2)])
  then show ?thesis by auto
qed

lemma fetch_all_player_awards_ids:
  assumes "fst (fetch_all_player_awards info players w) = Inr tbl" and "r \<in> set (rows tbl)"
  shows "''player_id'' \<in> set (columns tbl)
         \<and> (\<exists>p \<in> set players. cell_of r ''player_id'' = IntCell (id' p))"
proof -
  let ?vals = "(\<lambda>p. IntCell (id' p)) ` set players"
  have t: "\<forall>df \<in> set (fst (awards_loop info players [] w)). tagged ''player_id'' ?vals df"
    by (rule awards_loop_tagged) simp_all
  have e: "(if fst (awards_loop info players [] w) \<noteq> [] then pd_concat (fst (awards_loop info players [] w))
            else Inr DataFrame) = Inr tbl"
    using assms(1) by (simp only: fetch_all_player_awards_fst)
  have "''player_id'' \<in> set (columns tbl) \<and> cell_of r ''player_id'' \<in> ?vals"
    by (rule accumulated_tagged[OF e t assms(2)])
  then show ?thesis by auto
qed

lemma fetch_all_player_salaries_names:
  assumes "fst (fetch_all_player_salaries http players w) = Inr tbl" and "r \<in> set (rows tbl)"
  shows "''full_name'' \<in> set (columns tbl)
         \<and> (\<exists>p \<in> set players. cell_of r ''full_name'' = StrCell (full_name p))"
proof -
  let ?vals = "(\<lambda>p. StrCell (full_name p)) ` set players"
  have t: "\<forall>df \<in> set (fst (salaries_loop http players [] w)). tagged ''full_name'' ?vals df"
    by (rule salaries_loop_tagged) simp_all
  have e: "(if fst (salaries_loop http players [] w) \<noteq> [] then pd_concat (fst (salaries_loop http players [] w))
            else Inr DataFrame) = Inr tbl"
    using assms(1) by (simp only: fetch_all_player_salaries_fst)
  have "''full_name'' \<in> set (columns tbl) \<and> cell_of r ''full_name'' \<in> ?vals"
    by (rule accumulated_tagged[OF e t assms(2)])
  then show ?thesis by auto
qed

text \<open>
  C10. Every row of the table \<^verbatim>\<open>fetch_all_player_stats\<close> returns, and every row of
  the table \<^verbatim>\<open>fetch_all_player_awards\<close> returns, has in the column
  \<^verbatim>\<open>player_id\<close> the id of a player of the roster; every row of the table
  \<^verbatim>\<open>fetch_all_player_salaries\<close> returns has in the column \<^verbatim>\<open>full_name\<close> the
  full name of a player of the roster.
\<close>

theorem accumulated_rows_refer_to_roster:
  "(fst (fetch_all_player_stats career players w) = Inr stats_df \<and> r \<in> set (rows stats_df)
      \<longrightarrow> ''player_id'' \<in> set (columns stats_df)
          \<and> (\<exists>p \<in> set players. cell_of r ''player_id'' = IntCell (id' p)))
   \<and> (fst (fetch_all_player_awards info players w) = Inr awards_df \<and> r \<in> set (rows awards_df)
      \<longrightarrow> ''player_id'' \<in> set (columns awards_df)
          \<and> (\<exists>p \<in> set players. cell_of r ''player_id'' = IntCell (id' p)))
   \<and> (fst (fetch_all_player_salaries http players w) = Inr salaries_df
        \<and> r \<in> set (rows salaries_df)
      \<longrightarrow> ''full_name'' \<in> set (columns salaries_df)
          \<and> (\<exists>p \<in> set players. cell_of r ''full_name'' = StrCell (full_name p)))"
  using fetch_all_player_stats_ids fetch_all_player_awards_ids fetch_all_player_salaries_names
  by blast

lemma flaky_stats_table:
  "fst (fetch_all_player_stats flaky_career [A_B] w0)
   = Inr \<lparr>columns = [''PTS'', ''player_id''],
          rows = [[(''PTS'', IntCell 30), (''player_id'', IntCell 1)]]\<rparr>"
  by code_simp

lemma flaky_awards_table:
  "fst (fetch_all_player_awards flaky_info [A_B] w0)
   = Inr \<lparr>columns = [''PIE'', ''player_id''],
          rows = [[(''PIE'', IntCell 12), (''player_id'', IntCell 1)]]\<rparr>"
  by code_simp

lemma flaky_salaries_table:
  "fst (fetch_all_player_salaries flaky_site [A_B] w0)
   = Inr \<lparr>columns = [''season'', ''salary'', ''full_name''],
          rows = [[(''season'', StrCell ''2021-22''), (''salary'', StrCell ''1234567''),
                   (''full_name'', StrCell ''A B'')]]\<rparr>"
  by code_simp

theorem accumulated_rows_refer_to_roster_witness:
  "fst (fetch_all_player_stats flaky_career [A_B] w0)
     = Inr \<lparr>columns = [''PTS'', ''player_id''],
            rows = [[(''PTS'', IntCell 30), (''player_id'', IntCell 1)]]\<rparr>
   \<and> (\<exists>p \<in> set [A_B].
         cell_of [(''PTS'', IntCell 30), (''player_id'', IntCell 1)] ''player_id''
           = IntCell (id' p))
   \<and> fst (fetch_all_player_awards flaky_info [A_B] w0)
     = Inr \<lparr>columns = [''PIE'', ''player_id''],
            rows = [[(''PIE'', IntCell 12), (''player_id'', IntCell 1)]]\<rparr>
   \<and> (\<exists>p \<in> set [A_B].
         cell_of [(''PIE'', IntCell 12), (''player_id'', IntCell 1)] ''player_id''
           = IntCell (id' p))
   \<and> fst (fetch_all_player_salaries flaky_site [A_B] w0)
     = Inr \<lparr>columns = [''season'', ''salary'', ''full_name''],
            rows = [[(''season'', StrCell ''2021-22''), (''salary'', StrCell ''1234567''),
                     (''full_name'', StrCell ''A B'')]]\<rparr>
   \<and> (\<exists>p \<in> set [A_B].
         cell_of [(''season'', StrCell ''2021-22''), (''salary'', StrCell ''1234567''),
                  (''full_name'', StrCell ''A B'')] ''full_name''
           = StrCell (full_name p))"
proof -
  let ?r1 = "[(''PTS'', IntCell 30), (''player_id'', IntCell 1)]"
  let ?r2 = "[(''PIE'', IntCell 12), (''player_id'', IntCell 1)]"
  let ?r3 = "[(''season'', StrCell ''2021-22''), (''salary'', StrCell ''1234567''),
              (''full_name'', StrCell ''A B'')]"
  let ?t1 = "\<lparr>columns = [''PTS'', ''player_id''], rows = [?r1]\<rparr>"
  let ?t2 = "\<lparr>columns = [''PIE'', ''player_id''], rows = [?r2]\<rparr>"
  let ?t3 = "\<lparr>columns = [''season'', ''salary'', ''full_name''], rows = [?r3]\<rparr>"
  have m1: "?r1 \<in> set (rows ?t1)" and m2: "?r2 \<in> set (rows ?t2)"
    and m3: "?r3 \<in> set (rows ?t3)"
    by simp_all
  from accumulated_rows_refer_to_roster
         [of flaky_career "[A_B]" w0 ?t1 ?r1 flaky_info ?t2 flaky_site ?t3]
       flaky_stats_table m1
  have a: "\<exists>p \<in> set [A_B]. cell_of ?r1 ''player_id'' = IntCell (id' p)"
    by blast
  from accumulated_rows_refer_to_roster
         [of flaky_career "[A_B]" w0 ?t1 ?r2 flaky_info ?t2 flaky_site ?t3]
       flaky_awards_table m2
  have b: "\<exists>p \<in> set [A_B]. cell_of ?r2 ''player_id'' = IntCell (id' p)"
    by blast
  from accumulated_rows_refer_to_roster
         [of flaky_career "[A_B]" w0 ?t1 ?r3 flaky_info ?t2 flaky_site ?t3]
       flaky_salaries_table m3
  have c: "\<exists>p \<in> set [A_B]. cell_of ?r3 ''full_name'' = StrCell (full_name p)"
    by blast
  from a b c flaky_stats_table flaky_awards_table flaky_salaries_table
  show ?thesis by blast
qed

section \<open>A page without the table\<close>

text \<open>The case the collector handles: the label is there and no table follows it. The
  fetch returns the empty table and prints the "not found" line.\<close>

lemma label_without_table:
  assumes "http (player_url player_name) = Inr soup"
    and "dropWhile (\<lambda>t. \<not> is_past_label t) (soup_tags soup) = label # after"
    and "find (is_tag ''table'') after = None"
  shows "fetch_player_salaries http player_name w
         = (Inr DataFrame,
            print_line (''Past salaries table not found for player '' @ player_name)
              (emit (Get (sessions w) (player_url player_name))
                 (emit (NewSession (sessions w)) (w\<lparr>sessions := Suc (sessions w)\<rparr>))))"
  using assms
  by (simp add: fetch_player_salaries_def create_session_with_retries_def Let_def
        DataFrame_records_def DataFrame_def del: dropWhile_eq_Nil_conv)

text \<open>
  C3 fails on the collector for a page that has no \<^verbatim>\<open>Past Salaries\<close> label at all,
  such as an error page: \<^verbatim>\<open>soup.find\<close> gives \<^verbatim>\<open>None\<close>, and
  \<^verbatim>\<open>find_next\<close> on it raises \<^verbatim>\<open>AttributeError\<close>. Nothing is printed by
  \<^verbatim>\<open>fetch_player_salaries\<close>; the loop around it prints its failure line.
\<close>

theorem missing_label_raises:
  "fst (fetch_player_salaries (\<lambda>url. Inr not_found_page) player_name w)
     = Inl (none_has_no ''find_next'')
   \<and> trace (snd (fetch_player_salaries (\<lambda>url. Inr not_found_page) player_name w))
     = trace w @ [NewSession (sessions w), Get (sessions w) (player_url player_name)]
   \<and> trace (snd (fetch_all_player_salaries (\<lambda>url. Inr not_found_page) [A_B] w0))
     = [NewSession 0, Get 0 ''https://hoopshype.com/player/a-b/salary/'',
        Print (''Failed to fetch salaries for player A B: ''
               @ str_of (none_has_no ''find_next''))]"
proof -
  have n: "dropWhile (\<lambda>t. \<not> is_past_label t) (soup_tags not_found_page) = []"
    by (simp add: not_found_page_def soup_tags_def is_past_label_def is_tag_def)
  have f: "fetch_player_salaries (\<lambda>url. Inr not_found_page) name v
           = (Inl (none_has_no ''find_next''),
              emit (Get (sessions v) (player_url name))
                (emit (NewSession (sessions v)) (v\<lparr>sessions := Suc (sessions v)\<rparr>)))"
    for name v
    by (simp add: fetch_player_salaries_def create_session_with_retries_def Let_def n
             del: dropWhile_eq_Nil_conv)
  have u: "player_url ''A B'' = ''https://hoopshype.com/player/a-b/salary/''"
    by code_simp
  have "trace (snd (fetch_all_player_salaries (\<lambda>url. Inr not_found_page) [A_B] w0))
     = [NewSession 0, Get 0 ''https://hoopshype.com/player/a-b/salary/'',
        Print (''Failed to fetch salaries for player A B: ''
               @ str_of (none_has_no ''find_next''))]"
    by (simp add: fetch_all_player_salaries_snd f trace_print_line trace_emit
          A_B_def w0_def u)
  then show ?thesis by (simp add: f trace_emit)
qed

section \<open>No rows from any player\<close>

text \<open>When every fetch raises or returns an empty table, nothing is collected and the
  function returns \<^verbatim>\<open>pd.DataFrame()\<close>.\<close>

lemma stats_loop_no_rows:
  assumes "\<forall>p \<in> set ps. case fetch_player_stats career (id' p) of
                            Inl e \<Rightarrow> True | Inr st \<Rightarrow> frame_empty st"
  shows "fst (stats_loop career ps acc w) = acc"
  using assms
proof (induction ps arbitrary: w)
  case Nil
  show ?case by simp
next
  case (Cons p ps)
  then show ?case by (cases "fetch_player_stats career (id' p)") simp_all
qed

lemma awards_loop_no_rows:
  assumes "\<forall>p \<in> set ps. case fetch_player_awards info (id' p) of
                            Inl e \<Rightarrow> True | Inr aw \<Rightarrow> frame_empty aw"
  shows "fst (awards_loop info ps acc w) = acc"
  using assms
proof (induction ps arbitrary: w)
  case Nil
  show ?case by simp
next
  case (Cons p ps)
  then show ?case by (cases "fetch_player_awards info (id' p)") simp_all
qed

lemma salaries_loop_no_rows:
  assumes "\<forall>p \<in> set ps. case fst (fetch_player_salaries http (full_name p) w') of
                            Inl e \<Rightarrow> True | Inr sal \<Rightarrow> frame_empty sal"
  shows "fst (salaries_loop http ps acc w) = acc"
  using assms
proof (induction ps arbitrary: w)
  case Nil
  show ?case by simp
next
  case (Cons p ps)
  obtain r w1 where a: "fetch_player_salaries http (full_name p) w = (r, w1)"
    by (cases "fetch_player_salaries http (full_name p) w")
  have r: "fst (fetch_player_salaries http (full_name p) w') = r"
    using a fetch_player_salaries_world[of http "full_name p" w' w] by simp
  show ?case using Cons a r by (cases r) simp_all
qed

lemma no_rows_gives_untyped_table:
  "\<forall>p \<in> set ps. (case fetch_player_stats career (id' p) of
                     Inl e \<Rightarrow> True | Inr st \<Rightarrow> frame_empty st)
     \<Longrightarrow> fst (fetch_all_player_stats career ps w) = Inr DataFrame"
  "\<forall>p \<in> set ps. (case fetch_player_awards info (id' p) of
                     Inl e \<Rightarrow> True | Inr aw \<Rightarrow> frame_empty aw)
     \<Longrightarrow> fst (fetch_all_player_awards info ps w) = Inr DataFrame"
  "\<forall>p \<in> set ps. (case fst (fetch_player_salaries http (full_name p) w) of
                     Inl e \<Rightarrow> True | Inr sal \<Rightarrow> frame_empty sal)
     \<Longrightarrow> fst (fetch_all_player_salaries http ps w) = Inr DataFrame"
  by (simp_all add: fetch_all_player_stats_fst fetch_all_player_awards_fst
        fetch_all_player_salaries_fst stats_loop_no_rows awards_loop_no_rows
        salaries_loop_no_rows[where w' = w])

section \<open>Merging\<close>

text \<open>A left merge fails exactly when a key is not a column of its table or the two
  key columns are of different kinds.\<close>

lemma merge_left_fails_iff:
  "(\<exists>e. merge_left left right lk rk = Inl e)
     \<longleftrightarrow> rk \<notin> set (columns right) \<or> lk \<notin> set (columns left)
         \<or> key_clash (rows left) lk (rows right) rk"
  by (auto simp: merge_left_def Let_def)

lemma length_concat_nonempty:
  "(\<And>x. x \<in> set xs \<Longrightarrow> f x \<noteq> []) \<Longrightarrow> length xs \<le> length (concat (map f xs))"
proof (induction xs)
  case Nil
  show ?case by simp
next
  case (Cons x xs)
  have "f x \<noteq> []" using Cons.prems by simp
  then have "1 \<le> length (f x)" by (cases "f x") simp_all
  moreover have "length xs \<le> length (concat (map f xs))" using Cons by simp
  ultimately show ?case by simp
qed

text \<open>When it succeeds it keeps every left row at least once.\<close>

lemma merge_left_keeps_left_rows:
  assumes "merge_left left right lk rk = Inr merged"
  shows "length (rows left) \<le> length (rows merged)"
proof -
  from assms obtain joined where "rows merged = concat (map joined (rows left))"
    and "\<And>l. joined l \<noteq> []"
    by (auto simp: merge_left_def Let_def split: if_splits)
  then show ?thesis using length_concat_nonempty[of "rows left" joined] by simp
qed

lemma merge_data_keeps_players:
  assumes "merge_data players_tbl stats_df awards_df salaries_df = Inr merged"
  shows "length (rows players_tbl) \<le> length (rows merged)"
proof -
  from assms obtain m1 m2 where
    a: "merge_left players_tbl stats_df ''id'' ''player_id'' = Inr m1" and
    b: "merge_left m1 awards_df ''player_id'' ''player_id'' = Inr m2" and
    c: "merge_left m2 salaries_df ''full_name'' ''full_name'' = Inr merged"
    by (auto simp: merge_data_def split: sum.splits)
  from merge_left_keeps_left_rows[OF a] merge_left_keeps_left_rows[OF b]
       merge_left_keeps_left_rows[OF c]
  show ?thesis by simp
qed

text \<open>The table without columns has none of the keys: merging it in fails.\<close>

lemma merge_left_DataFrame: "merge_left left DataFrame lk rk = Inl (KeyError rk)"
  by (simp add: merge_left_def DataFrame_def)

lemma merge_data_untyped_stats:
  "merge_data players_tbl DataFrame awards_df salaries_df = Inl (KeyError ''player_id'')"
  by (simp add: merge_data_def merge_left_DataFrame)

lemma merge_data_untyped_awards:
  "\<exists>e. merge_data players_tbl stats_df DataFrame salaries_df = Inl e"
  by (simp add: merge_data_def merge_left_DataFrame split: sum.splits)

lemma merge_data_untyped_salaries:
  "\<exists>e. merge_data players_tbl stats_df awards_df DataFrame = Inl e"
  by (simp add: merge_data_def merge_left_DataFrame split: sum.splits)

text \<open>
  C1 fails on the collector. When no player yields rows, each of the three functions
  returns \<^verbatim>\<open>pd.DataFrame()\<close>, a table that is not null but has no columns, so none
  of the key columns; \<^verbatim>\<open>merge_data\<close> on it raises \<^verbatim>\<open>KeyError\<close> instead of
  keeping the players with missing values.
\<close>

theorem untyped_empty_table_breaks_merge:
  "fst (fetch_all_player_stats (\<lambda>i. Inr [\<lparr>columns = [''PTS''], rows = []\<rparr>]) [A_B, C_D] w0)
     = Inr \<lparr>columns = [], rows = []\<rparr>
   \<and> fst (fetch_all_player_awards scenario_info [A_B, C_D] w0)
     = Inr \<lparr>columns = [], rows = []\<rparr>
   \<and> fst (fetch_all_player_salaries (\<lambda>url. Inr label_only_page) [A_B, C_D] w0)
     = Inr \<lparr>columns = [], rows = []\<rparr>
   \<and> merge_data (players_df [A_B, C_D]) \<lparr>columns = [], rows = []\<rparr>
        \<lparr>columns = [], rows = []\<rparr> \<lparr>columns = [], rows = []\<rparr>
     = Inl (KeyError ''player_id'')
   \<and> merge_data players_tbl \<lparr>columns = [], rows = []\<rparr> awards_df salaries_df
     = Inl (KeyError ''player_id'')"
proof -
  have "fst (fetch_all_player_stats (\<lambda>i. Inr [\<lparr>columns = [''PTS''], rows = []\<rparr>])
               [A_B, C_D] w0)
          = Inr \<lparr>columns = [], rows = []\<rparr>"
    by code_simp
  moreover have "fst (fetch_all_player_awards scenario_info [A_B, C_D] w0)
          = Inr \<lparr>columns = [], rows = []\<rparr>"
    by code_simp
  moreover have "fst (fetch_all_player_salaries (\<lambda>url. Inr label_only_page) [A_B, C_D] w0)
          = Inr \<lparr>columns = [], rows = []\<rparr>"
    by code_simp
  moreover have "merge_data tbl \<lparr>columns = [], rows = []\<rparr> a s = Inl (KeyError ''player_id'')"
    for tbl a s
    using merge_data_untyped_stats by (simp add: DataFrame_def)
  ultimately show ?thesis by simp
qed

text \<open>
  C2 fails on the collector, by the same defect. In the scenario the awards source has
  no row for either player, so the awards table is \<^verbatim>\<open>pd.DataFrame()\<close>, and the
  second merge raises \<^verbatim>\<open>KeyError\<close>: no merged table is produced.
\<close>

theorem scenario_merge_raises:
  "fst (fetch_all_player_stats scenario_career [A_B, C_D] w0)
     = Inr \<lparr>columns = [''PTS'', ''player_id''],
            rows = [[(''PTS'', IntCell 30), (''player_id'', IntCell 1)]]\<rparr>
   \<and> fst (fetch_all_player_awards scenario_info [A_B, C_D] w0)
     = Inr \<lparr>columns = [], rows = []\<rparr>
   \<and> fst (fetch_all_player_salaries scenario_site [A_B, C_D] w0)
     = Inr \<lparr>columns = [''season'', ''salary'', ''full_name''],
            rows = [[(''season'', StrCell ''2021-22''), (''salary'', StrCell ''1234567''),
                     (''full_name'', StrCell ''C D'')]]\<rparr>
   \<and> merge_data (players_df [A_B, C_D])
        \<lparr>columns = [''PTS'', ''player_id''],
         rows = [[(''PTS'', IntCell 30), (''player_id'', IntCell 1)]]\<rparr>
        \<lparr>columns = [], rows = []\<rparr>
        \<lparr>columns = [''season'', ''salary'', ''full_name''],
         rows = [[(''season'', StrCell ''2021-22''), (''salary'', StrCell ''1234567''),
                  (''full_name'', StrCell ''C D'')]]\<rparr>
     = Inl (KeyError ''player_id'')"
  by code_simp

text \<open>
  C5 fails on the collector, by the same defect. For the roster of the one player
  \<^verbatim>\<open>A B\<close>, with a row of statistics and a row of awards and a salary page without a
  table, the salary table is \<^verbatim>\<open>pd.DataFrame()\<close> and the third merge raises
  \<^verbatim>\<open>KeyError\<close>: the output has no row for the player, because there is no output.
\<close>

theorem player_without_salaries_is_lost:
  "fst (fetch_all_player_stats flaky_career [A_B] w0)
     = Inr \<lparr>columns = [''PTS'', ''player_id''],
            rows = [[(''PTS'', IntCell 30), (''player_id'', IntCell 1)]]\<rparr>
   \<and> fst (fetch_all_player_awards flaky_info [A_B] w0)
     = Inr \<lparr>columns = [''PIE'', ''player_id''],
            rows = [[(''PIE'', IntCell 12), (''player_id'', IntCell 1)]]\<rparr>
   \<and> fst (fetch_all_player_salaries (\<lambda>url. Inr label_only_page) [A_B] w0)
     = Inr \<lparr>columns = [], rows = []\<rparr>
   \<and> merge_data (players_df [A_B])
        \<lparr>columns = [''PTS'', ''player_id''],
         rows = [[(''PTS'', IntCell 30), (''player_id'', IntCell 1)]]\<rparr>
        \<lparr>columns = [''PIE'', ''player_id''],
         rows = [[(''PIE'', IntCell 12), (''player_id'', IntCell 1)]]\<rparr>
        \<lparr>columns = [], rows = []\<rparr>
     = Inl (KeyError ''full_name'')
   \<and> (\<exists>e. merge_data players_tbl stats_df awards_df \<lparr>columns = [], rows = []\<rparr> = Inl e)"
proof -
  have "fst (fetch_all_player_stats flaky_career [A_B] w0)
     = Inr \<lparr>columns = [''PTS'', ''player_id''],
            rows = [[(''PTS'', IntCell 30), (''player_id'', IntCell 1)]]\<rparr>"
    by code_simp
  moreover have "fst (fetch_all_player_awards flaky_info [A_B] w0)
     = Inr \<lparr>columns = [''PIE'', ''player_id''],
            rows = [[(''PIE'', IntCell 12), (''player_id'', IntCell 1)]]\<rparr>"
    by code_simp
  moreover have "fst (fetch_all_player_salaries (\<lambda>url. Inr label_only_page) [A_B] w0)
     = Inr \<lparr>columns = [], rows = []\<rparr>"
    by code_simp
  moreover have "merge_data (players_df [A_B])
        \<lparr>columns = [''PTS'', ''player_id''],
         rows = [[(''PTS'', IntCell 30), (''player_id'', IntCell 1)]]\<rparr>
        \<lparr>columns = [''PIE'', ''player_id''],
         rows = [[(''PIE'', IntCell 12), (''player_id'', IntCell 1)]]\<rparr>
        \<lparr>columns = [], rows = []\<rparr>
     = Inl (KeyError ''full_name'')"
    by code_simp
  moreover have "\<exists>e. merge_data players_tbl stats_df awards_df \<lparr>columns = [], rows = []\<rparr>
                     = Inl e"
    using merge_data_untyped_salaries by (simp add: DataFrame_def)
  ultimately show ?thesis by simp
qed

section \<open>A run with a failing player\<close>

lemma flaky_tables:
  "pd_concat [set_column \<lparr>columns = [''PTS''], rows = [[(''PTS'', IntCell 30)]]\<rparr>
                ''player_id'' (IntCell 1)]
   = Inr \<lparr>columns = [''PTS'', ''player_id''],
          rows = [[(''PTS'', IntCell 30), (''player_id'', IntCell 1)]]\<rparr>"
  "pd_concat [set_column \<lparr>columns = [''PIE''], rows = [[(''PIE'', IntCell 12)]]\<rparr>
                ''player_id'' (IntCell 1)]
   = Inr \<lparr>columns = [''PIE'', ''player_id''],
          rows = [[(''PIE'', IntCell 12), (''player_id'', IntCell 1)]]\<rparr>"
  "pd_concat [set_column
                \<lparr>columns = [''season'', ''salary''],
                 rows = [[(''season'', StrCell ''2021-22''), (''salary'', StrCell ''1234567'')]]\<rparr>
                ''full_name'' (StrCell ''A B'')]
   = Inr \<lparr>columns = [''season'', ''salary'', ''full_name''],
          rows = [[(''season'', StrCell ''2021-22''), (''salary'', StrCell ''1234567''),
                   (''full_name'', StrCell ''A B'')]]\<rparr>"
  by code_simp+

lemma flaky_stats_runs:
  "fetch_all_player_stats flaky_career [C_D] w
   = (Inr \<lparr>columns = [], rows = []\<rparr>,
      print_line ''Failed to fetch stats for player C D: timed out'' w)"
  "fetch_all_player_stats flaky_career [C_D, A_B] w
   = (Inr \<lparr>columns = [''PTS'', ''player_id''],
           rows = [[(''PTS'', IntCell 30), (''player_id'', IntCell 1)]]\<rparr>,
      sleep 1 (print_line ''Failed to fetch stats for player C D: timed out'' w))"
  by (simp_all add: fetch_all_player_stats_def fetch_player_stats_def flaky_career_def
        C_D_def A_B_def DataFrame_def frame_empty_def flaky_tables)

lemma flaky_awards_runs:
  "fetch_all_player_awards flaky_info [C_D] w
   = (Inr \<lparr>columns = [], rows = []\<rparr>,
      print_line ''Failed to fetch awards for player C D: timed out'' w)"
  "fetch_all_player_awards flaky_info [C_D, A_B] w
   = (Inr \<lparr>columns = [''PIE'', ''player_id''],
           rows = [[(''PIE'', IntCell 12), (''player_id'', IntCell 1)]]\<rparr>,
      sleep 1 (print_line ''Failed to fetch awards for player C D: timed out'' w))"
  by (simp_all add: fetch_all_player_awards_def fetch_player_awards_def flaky_info_def
        C_D_def A_B_def DataFrame_def frame_empty_def flaky_tables)

lemma flaky_salaries_runs:
  "fetch_all_player_salaries flaky_site [C_D] w
   = (Inr \<lparr>columns = [], rows = []\<rparr>,
      print_line ''Failed to fetch salaries for player C D: timed out''
        (emit (Get (sessions w) ''https://hoopshype.com/player/c-d/salary/'')
           (emit (NewSession (sessions w)) (w\<lparr>sessions := Suc (sessions w)\<rparr>))))"
  "fetch_all_player_salaries flaky_site [C_D, A_B] w
   = (Inr \<lparr>columns = [''season'', ''salary'', ''full_name''],
           rows = [[(''season'', StrCell ''2021-22''), (''salary'', StrCell ''1234567''),
                    (''full_name'', StrCell ''A B'')]]\<rparr>,
      sleep 1
        (emit (Get (Suc (sessions w)) ''https://hoopshype.com/player/a-b/salary/'')
           (emit (NewSession (Suc (sessions w)))
              ((print_line ''Failed to fetch salaries for player C D: timed out''
                  (emit (Get (sessions w) ''https://hoopshype.com/player/c-d/salary/'')
                     (emit (NewSession (sessions w)) (w\<lparr>sessions := Suc (sessions w)\<rparr>))))
               \<lparr>sessions := Suc (Suc (sessions w))\<rparr>))))"
  by (simp_all add: fetch_all_player_salaries_def flaky_salary_fetches C_D_def A_B_def
        DataFrame_def frame_empty_def flaky_tables sessions_print_line sessions_emit)

lemma flaky_merge:
  "merge_data (players_df [C_D, A_B])
     \<lparr>columns = [''PTS'', ''player_id''],
      rows = [[(''PTS'', IntCell 30), (''player_id'', IntCell 1)]]\<rparr>
     \<lparr>columns = [''PIE'', ''player_id''],
      rows = [[(''PIE'', IntCell 12), (''player_id'', IntCell 1)]]\<rparr>
     \<lparr>columns = [''season'', ''salary'', ''full_name''],
      rows = [[(''season'', StrCell ''2021-22''), (''salary'', StrCell ''1234567''),
               (''full_name'', StrCell ''A B'')]]\<rparr>
   = Inr \<lparr>columns = [''id'', ''full_name'', ''PTS'', ''player_id'', ''PIE'',
                      ''season'', ''salary''],
          rows =
            [[(''id'', IntCell 2), (''full_name'', StrCell ''C D''), (''PTS'', NaN),
              (''player_id'', NaN), (''PIE'', NaN), (''season'', NaN),
              (''salary'', NaN)],
             [(''id'', IntCell 1), (''full_name'', StrCell ''A B''),
              (''PTS'', IntCell 30), (''player_id'', IntCell 1),
              (''PIE'', IntCell 12), (''season'', StrCell ''2021-22''),
              (''salary'', StrCell ''1234567'')]]\<rparr>"
  by code_simp

text \<open>
  C4 fails on the collector. A fetch that raises is logged with the player's name, the
  loop goes on and the player adds no row to the table: with \<^verbatim>\<open>C D\<close> failing in all
  three sources and \<^verbatim>\<open>A B\<close> next in the roster, each table holds the row of
  \<^verbatim>\<open>A B\<close> only and the run ends with the file written. But when the failing player
  is the only one, so that no row is left for a source, the table is
  \<^verbatim>\<open>pd.DataFrame()\<close> and the merge raises \<^verbatim>\<open>KeyError\<close> after the three loops:
  the run does not complete, and nothing is written.
\<close>

theorem failed_fetch_can_end_the_run:
  "main (Inr [C_D]) flaky_career flaky_info flaky_site w0
     = (Inl (KeyError ''player_id''),
        \<lparr>trace =
           [Print ''Fetching active players...'',
            Print ''Fetching player stats...'',
            Print ''Failed to fetch stats for player C D: timed out'',
            Print ''Fetching player awards...'',
            Print ''Failed to fetch awards for player C D: timed out'',
            Print ''Scraping player salaries...'',
            NewSession 0, Get 0 ''https://hoopshype.com/player/c-d/salary/'',
            Print ''Failed to fetch salaries for player C D: timed out'',
            Print ''Merging data...''],
         sessions = 1\<rparr>)
   \<and> fst (fetch_all_player_stats flaky_career [C_D] w0) = Inr \<lparr>columns = [], rows = []\<rparr>
   \<and> fst (fetch_all_player_stats flaky_career [C_D, A_B] w0)
     = Inr \<lparr>columns = [''PTS'', ''player_id''],
            rows = [[(''PTS'', IntCell 30), (''player_id'', IntCell 1)]]\<rparr>
   \<and> fst (fetch_all_player_awards flaky_info [C_D, A_B] w0)
     = Inr \<lparr>columns = [''PIE'', ''player_id''],
            rows = [[(''PIE'', IntCell 12), (''player_id'', IntCell 1)]]\<rparr>
   \<and> fst (fetch_all_player_salaries flaky_site [C_D, A_B] w0)
     = Inr \<lparr>columns = [''season'', ''salary'', ''full_name''],
            rows = [[(''season'', StrCell ''2021-22''), (''salary'', StrCell ''1234567''),
                     (''full_name'', StrCell ''A B'')]]\<rparr>
   \<and> main (Inr [C_D, A_B]) flaky_career flaky_info flaky_site w0
     = (Inr (),
        \<lparr>trace =
           [Print ''Fetching active players...'',
            Print ''Fetching player stats...'',
            Print ''Failed to fetch stats for player C D: timed out'', Sleep 1,
            Print ''Fetching player awards...'',
            Print ''Failed to fetch awards for player C D: timed out'', Sleep 1,
            Print ''Scraping player salaries...'',
            NewSession 0, Get 0 ''https://hoopshype.com/player/c-d/salary/'',
            Print ''Failed to fetch salaries for player C D: timed out'',
            NewSession 1, Get 1 ''https://hoopshype.com/player/a-b/salary/'', Sleep 1,
            Print ''Merging data...'',
            Print ''Saving data to CSV...'',
            ToCsv ''nba_active_players_dataset.csv''
              \<lparr>columns = [''id'', ''full_name'', ''PTS'', ''player_id'', ''PIE'',
                          ''season'', ''salary''],
               rows =
                 [[(''id'', IntCell 2), (''full_name'', StrCell ''C D''), (''PTS'', NaN),
                   (''player_id'', NaN), (''PIE'', NaN), (''season'', NaN),
                   (''salary'', NaN)],
                  [(''id'', IntCell 1), (''full_name'', StrCell ''A B''),
                   (''PTS'', IntCell 30), (''player_id'', IntCell 1),
                   (''PIE'', IntCell 12), (''season'', StrCell ''2021-22''),
                   (''salary'', StrCell ''1234567'')]]\<rparr>,
            Print ''Data collection complete.''],
         sessions = 2\<rparr>)"
  proof -
  have a: "main (Inr [C_D]) flaky_career flaky_info flaky_site w0
     = (Inl (KeyError ''player_id''),
        \<lparr>trace =
           [Print ''Fetching active players...'',
            Print ''Fetching player stats...'',
            Print ''Failed to fetch stats for player C D: timed out'',
            Print ''Fetching player awards...'',
            Print ''Failed to fetch awards for player C D: timed out'',
            Print ''Scraping player salaries...'',
            NewSession 0, Get 0 ''https://hoopshype.com/player/c-d/salary/'',
            Print ''Failed to fetch salaries for player C D: timed out'',
            Print ''Merging data...''],
         sessions = 1\<rparr>)"
    by (simp add: main_def fetch_active_players_def flaky_stats_runs flaky_awards_runs
          flaky_salaries_runs merge_data_untyped_stats[unfolded DataFrame_def]
          print_line_def emit_def w0_def)
  have b: "main (Inr [C_D, A_B]) flaky_career flaky_info flaky_site w0
     = (Inr (),
        \<lparr>trace =
           [Print ''Fetching active players...'',
            Print ''Fetching player stats...'',
            Print ''Failed to fetch stats for player C D: timed out'', Sleep 1,
            Print ''Fetching player awards...'',
            Print ''Failed to fetch awards for player C D: timed out'', Sleep 1,
            Print ''Scraping player salaries...'',
            NewSession 0, Get 0 ''https://hoopshype.com/player/c-d/salary/'',
            Print ''Failed to fetch salaries for player C D: timed out'',
            NewSession 1, Get 1 ''https://hoopshype.com/player/a-b/salary/'', Sleep 1,
            Print ''Merging data...'',
            Print ''Saving data to CSV...'',
            ToCsv ''nba_active_players_dataset.csv''
              \<lparr>columns = [''id'', ''full_name'', ''PTS'', ''player_id'', ''PIE'',
                          ''season'', ''salary''],
               rows =
                 [[(''id'', IntCell 2), (''full_name'', StrCell ''C D''), (''PTS'', NaN),
                   (''player_id'', NaN), (''PIE'', NaN), (''season'', NaN),
                   (''salary'', NaN)],
                  [(''id'', IntCell 1), (''full_name'', StrCell ''A B''),
                   (''PTS'', IntCell 30), (''player_id'', IntCell 1),
                   (''PIE'', IntCell 12), (''season'', StrCell ''2021-22''),
                   (''salary'', StrCell ''1234567'')]]\<rparr>,
            Print ''Data collection complete.''],
         sessions = 2\<rparr>)"
    by (simp add: main_def fetch_active_players_def flaky_stats_runs flaky_awards_runs
          flaky_salaries_runs flaky_merge save_data_def sleep_def
          print_line_def emit_def w0_def)
  show ?thesis
    by (simp only: a b flaky_stats_runs flaky_awards_runs flaky_salaries_runs fst_conv
          simp_thms)
qed

end
